theory Spec2Isabelle
  imports Main "HOL-Library.Char_ord" "HOL-Library.List_Lexorder" "HOL-Library.Multiset"
    "HOL-Library.Stream" "HOL-Library.Word"
begin

section \<open>Python strings\<close>

text \<open>
  A Python \<open>str\<close> is modelled as a \<open>string\<close>: a list of characters with code points
  0 to 255 (Latin-1), ordered by code point (\<open>Char_ord\<close>), lists of them
  lexicographically (\<open>List_Lexorder\<close>), as Python compares \<open>str\<close>, lists and tuples.
  The character tables below are those of the Unicode database on that range.
\<close>

definition in_range :: "char \<Rightarrow> char \<Rightarrow> char \<Rightarrow> bool" where
  "in_range lo hi c = (lo \<le> c \<and> c \<le> hi)"

text \<open>\<open>str.isspace\<close> on one character.\<close>

definition isspace :: "char \<Rightarrow> bool" where
  "isspace c = (in_range (CHR 0x09) (CHR 0x0D) c \<or> in_range (CHR 0x1C) (CHR 0x20) c
     \<or> c = CHR 0x85 \<or> c = CHR 0xA0)"

text \<open>\<open>str.isdecimal\<close>, \<open>str.isdigit\<close> and \<open>str.isalnum\<close> on one character. The
  superscripts \<open>0xB2\<close>, \<open>0xB3\<close> and \<open>0xB9\<close> are digits that are not decimal.\<close>

definition isdecimal_char :: "char \<Rightarrow> bool" where
  "isdecimal_char c = in_range CHR ''0'' CHR ''9'' c"

definition isdigit_char :: "char \<Rightarrow> bool" where
  "isdigit_char c = (isdecimal_char c \<or> c = CHR 0xB2 \<or> c = CHR 0xB3 \<or> c = CHR 0xB9)"

definition isalpha_char :: "char \<Rightarrow> bool" where
  "isalpha_char c = (in_range CHR ''a'' CHR ''z'' c \<or> in_range CHR ''A'' CHR ''Z'' c
     \<or> c = CHR 0xAA \<or> c = CHR 0xB5 \<or> c = CHR 0xBA
     \<or> in_range (CHR 0xC0) (CHR 0xD6) c \<or> in_range (CHR 0xD8) (CHR 0xF6) c
     \<or> in_range (CHR 0xF8) (CHR 0xFF) c)"

definition isnumeric_char :: "char \<Rightarrow> bool" where
  "isnumeric_char c = (isdigit_char c \<or> in_range (CHR 0xBC) (CHR 0xBE) c)"

definition isalnum_char :: "char \<Rightarrow> bool" where
  "isalnum_char c = (isalpha_char c \<or> isnumeric_char c)"

text \<open>The methods on strings: each is false on the empty string.\<close>

definition isdigit :: "string \<Rightarrow> bool" where
  "isdigit s = (s \<noteq> [] \<and> list_all isdigit_char s)"

definition isalnum :: "string \<Rightarrow> bool" where
  "isalnum s = (s \<noteq> [] \<and> list_all isalnum_char s)"

text \<open>\<open>str.strip()\<close>: leading and trailing white space removed.\<close>

definition strip :: "string \<Rightarrow> string" where
  "strip s = rev (dropWhile isspace (rev (dropWhile isspace s)))"

text \<open>\<open>str.lower()\<close>.\<close>

definition lower_char :: "char \<Rightarrow> char" where
  "lower_char c =
     (if in_range CHR ''A'' CHR ''Z'' c \<or> in_range (CHR 0xC0) (CHR 0xD6) c
         \<or> in_range (CHR 0xD8) (CHR 0xDE) c
      then char_of (of_char c + (32::nat)) else c)"

definition lower :: "string \<Rightarrow> string" where
  "lower s = map lower_char s"

text \<open>\<open>str(n)\<close> for a natural number.\<close>

definition digit_char :: "nat \<Rightarrow> char" where
  "digit_char d = ''0123456789'' ! d"

fun str_of_nat :: "nat \<Rightarrow> string" where
  "str_of_nat n =
     (if n < 10 then [digit_char n] else str_of_nat (n div 10) @ [digit_char (n mod 10)])"

declare str_of_nat.simps [simp del]

text \<open>\<open>'%02d'\<close> and \<open>'%04d'\<close>: decimal digits, zero-padded on the left to a width.\<close>

definition zero_pad :: "nat \<Rightarrow> nat \<Rightarrow> string" where
  "zero_pad width n = replicate (width - length (str_of_nat n)) CHR ''0'' @ str_of_nat n"

section \<open>Name sanitization (core.py, sanitize_name)\<close>

text \<open>The value of \<open>datetime.now()\<close>, whose fields Python keeps in these ranges.\<close>

record datetime =
  year :: nat
  month :: nat
  day :: nat
  hour :: nat
  minute :: nat
  second :: nat

definition valid_datetime :: "datetime \<Rightarrow> bool" where
  "valid_datetime t = (1 \<le> year t \<and> year t \<le> 9999 \<and> 1 \<le> month t \<and> month t \<le> 12
     \<and> 1 \<le> day t \<and> day t \<le> 31 \<and> hour t < 24 \<and> minute t < 60 \<and> second t < 60)"

text \<open>\<open>strftime('%Y%m%d-%H%M%S')\<close>.\<close>

definition strftime_stamp :: "datetime \<Rightarrow> string" where
  "strftime_stamp t = zero_pad 4 (year t) @ zero_pad 2 (month t) @ zero_pad 2 (day t) @ ''-''
     @ zero_pad 2 (hour t) @ zero_pad 2 (minute t) @ zero_pad 2 (second t)"

text \<open>The class \<open>[a-zA-Z0-9._-]\<close> of the first substitution, which deletes every
  character outside it.\<close>

definition name_char :: "char \<Rightarrow> bool" where
  "name_char c = (in_range CHR ''a'' CHR ''z'' c \<or> in_range CHR ''A'' CHR ''Z'' c
     \<or> in_range CHR ''0'' CHR ''9'' c \<or> c = CHR ''.'' \<or> c = CHR ''_'' \<or> c = CHR ''-'')"

text \<open>\<open>re.sub(r"\.\.+", ".", name)\<close>: scanning from the left, a maximal run of two or more
  dots is replaced by one dot; any other character is copied.\<close>

function sub_dot_runs :: "string \<Rightarrow> string" where
  "sub_dot_runs [] = []"
| "sub_dot_runs (c # cs) =
     (if c = CHR ''.'' \<and> cs \<noteq> [] \<and> hd cs = CHR ''.''
      then CHR ''.'' # sub_dot_runs (dropWhile (\<lambda>d. d = CHR ''.'') cs)
      else c # sub_dot_runs cs)"
  by pat_completeness auto
termination
  by (relation "measure length") (auto simp: less_Suc_eq_le length_dropWhile_le)

definition sanitize_name :: "datetime \<Rightarrow> string \<Rightarrow> string" where
  "sanitize_name now name =
     (let name = filter name_char name;
          name = sub_dot_runs name;
          name = (if length name > 100 then take 100 name else name)
      in if name = [] then ''backup-'' @ strftime_stamp now else name)"

text \<open>A string with no two adjacent dots.\<close>

fun no_double_dot :: "string \<Rightarrow> bool" where
  "no_double_dot (a # b # cs) = (\<not> (a = CHR ''.'' \<and> b = CHR ''.'') \<and> no_double_dot (b # cs))"
| "no_double_dot _ = True"

section \<open>Console input and output (core.py)\<close>

text \<open>
  Standard input is a stream of events: each call of \<open>input()\<close> consumes one, which is a
  line (without its newline), the end of the file, or an interrupt from the keyboard.
  What the program does is recorded as a list of events, in order. Colour escape
  sequences are left out of the printed text (\<open>Colors\<close> holds empty strings when the
  output is not a terminal), and so are banners and headings.
\<close>

datatype input_event = Line string | EOF | Interrupt

type_synonym stdin = "input_event stream"

type_synonym path = "string list"

datatype exn = SystemExit int | ValueError | IndexError

record manifest =
  m_version :: string
  m_created :: string
  m_backup_name :: string
  m_backup_type :: string
  m_user :: string
  m_hostname :: string
  m_os :: string
  m_arch :: string
  m_package_manager :: string
  m_default_shell :: string
  m_shells :: "string list"
  m_checksum :: string

datatype event =
    Print string
  | Prompt string
  | Status string string
  | ErrorMsg string
  | Log string string
  | Mkdir path
  | CopyFile path path
  | TarCreate path path string
  | WriteText path string
  | WriteManifest path manifest
  | CopyTree path path
  | Run "string list"
  | Invoke string

text \<open>\<open>print_status(message, status)\<close> prints the status line and logs the message;
  \<open>print_error\<close> prints to standard error and logs. \<open>log\<close> appends a line to the log file
  in the temporary directory.\<close>

definition print_status :: "string \<Rightarrow> string \<Rightarrow> event list" where
  "print_status message status = [Status message status, Log ''INFO'' message]"

definition print_error :: "string \<Rightarrow> event list" where
  "print_error message = [ErrorMsg message, Log ''ERROR'' message]"

text \<open>\<open>int(result)\<close> on a string of digit characters: the value in base ten when every
  character is a decimal digit and there are at most 4300 of them, which is the default
  of \<open>sys.get_int_max_str_digits()\<close>; \<open>ValueError\<close> otherwise.\<close>

definition digit_value :: "char \<Rightarrow> int" where
  "digit_value c = int (of_char c) - 48"

definition py_int :: "string \<Rightarrow> int option" where
  "py_int s = (if s \<noteq> [] \<and> length s \<le> 4300 \<and> list_all isdecimal_char s
     then Some (foldl (\<lambda>a c. 10 * a + digit_value c) 0 s) else None)"

definition read_input :: "string \<Rightarrow> string \<Rightarrow> stdin \<Rightarrow> string \<times> event list \<times> stdin" where
  "read_input prompt dflt inp =
     (let display = (if dflt \<noteq> [] then ''  '' @ prompt @ '' ['' @ dflt @ '']: ''
                     else ''  '' @ prompt @ '': '')
      in case shd inp of
           Line s \<Rightarrow>
             (let result = strip s
              in (if result \<noteq> [] then result else dflt, [Prompt display], stl inp))
         | EOF \<Rightarrow> (dflt, [Prompt display, Print []], stl inp)
         | Interrupt \<Rightarrow> (dflt, [Prompt display, Print []], stl inp))"

definition read_yes_no :: "string \<Rightarrow> bool \<Rightarrow> stdin \<Rightarrow> bool \<times> event list \<times> stdin" where
  "read_yes_no prompt dflt inp =
     (let suffix = (if dflt then ''[Y/n]'' else ''[y/N]'');
          display = ''  '' @ prompt @ '' '' @ suffix @ '': ''
      in case shd inp of
           Line s \<Rightarrow>
             (let result = lower (strip s)
              in (if result = [] then dflt else result \<in> set [''y'', ''yes''],
                  [Prompt display], stl inp))
         | EOF \<Rightarrow> (dflt, [Prompt display, Print []], stl inp)
         | Interrupt \<Rightarrow> (dflt, [Prompt display, Print []], stl inp))"

text \<open>The loop of \<open>read_choice\<close>, which runs until an input is accepted: it need not
  return, so its value is an option. \<open>n\<close> is \<open>len(options)\<close>, \<open>out\<close> what was printed so
  far. The outcome is the choice or the exception that leaves the function.\<close>

partial_function (option) read_choice_loop ::
    "string \<Rightarrow> nat \<Rightarrow> event list \<Rightarrow> stdin \<Rightarrow> ((exn + int) \<times> event list \<times> stdin) option" where
  "read_choice_loop prompt n out inp =
     (let display = ''  '' @ prompt @ '' [1]: ''
      in case shd inp of
           EOF \<Rightarrow> Some (Inr 1, out @ [Prompt display, Print []], stl inp)
         | Interrupt \<Rightarrow> Some (Inr 1, out @ [Prompt display, Print []], stl inp)
         | Line s \<Rightarrow>
             (let result = strip s
              in if result = [] then Some (Inr 1, out @ [Prompt display], stl inp)
                 else if isdigit result
                 then (case py_int result of
                         None \<Rightarrow> Some (Inl ValueError, out @ [Prompt display], stl inp)
                       | Some v \<Rightarrow>
                           if 1 \<le> v \<and> v \<le> int n
                           then Some (Inr v, out @ [Prompt display], stl inp)
                           else read_choice_loop prompt n
                                  (out @ [Prompt display]
                                     @ print_error (''Invalid choice. Please enter 1-'' @ str_of_nat n))
                                  (stl inp))
                 else read_choice_loop prompt n
                        (out @ [Prompt display]
                           @ print_error (''Invalid choice. Please enter 1-'' @ str_of_nat n))
                        (stl inp)))"

text \<open>The lines \<open>[i] option\<close> printed before the loop.\<close>

definition option_lines :: "string list \<Rightarrow> event list" where
  "option_lines options =
     map (\<lambda>(i, opt). Print (''      ['' @ str_of_nat (i + 1) @ ''] '' @ opt))
       (enumerate 0 options)"

definition read_choice ::
    "string \<Rightarrow> string list \<Rightarrow> stdin \<Rightarrow> ((exn + int) \<times> event list \<times> stdin) option" where
  "read_choice prompt options inp =
     read_choice_loop prompt (length options)
       ([Print []] @ option_lines options @ [Print []]) inp"

text \<open>\<open>xs[i]\<close> for a Python list: a negative index counts from the end, an index out of
  range raises \<open>IndexError\<close>.\<close>

definition py_index :: "'a list \<Rightarrow> int \<Rightarrow> exn + 'a" where
  "py_index xs i =
     (if 0 \<le> i \<and> i < int (length xs) then Inr (xs ! nat i)
      else if i < 0 \<and> - int (length xs) \<le> i then Inr (xs ! nat (int (length xs) + i))
      else Inl IndexError)"

text \<open>What one round of the loop of \<open>read_choice\<close> does with the event it reads, for
  \<open>n\<close> options: it leaves the function with a choice or an exception, or (\<open>None\<close>) it
  prints the error and asks again.\<close>

definition answer :: "nat \<Rightarrow> input_event \<Rightarrow> (exn + int) option" where
  "answer n ev =
     (case ev of
        EOF \<Rightarrow> Some (Inr 1)
      | Interrupt \<Rightarrow> Some (Inr 1)
      | Line s \<Rightarrow>
          (let result = strip s
           in if result = [] then Some (Inr 1)
              else if isdigit result
              then (case py_int result of
                      None \<Rightarrow> Some (Inl ValueError)
                    | Some v \<Rightarrow> if 1 \<le> v \<and> v \<le> int n then Some (Inr v) else None)
              else None))"

section \<open>More string methods\<close>

text \<open>\<open>sep.join(xs)\<close>.\<close>

fun join :: "string \<Rightarrow> string list \<Rightarrow> string" where
  "join sep [] = []"
| "join sep [x] = x"
| "join sep (x # y # ys) = x @ sep @ join sep (y # ys)"

text \<open>\<open>sub in s\<close> and \<open>s.startswith(p)\<close>.\<close>

fun contains :: "string \<Rightarrow> string \<Rightarrow> bool" where
  "contains sub [] = (sub = [])"
| "contains sub (c # cs) = (take (length sub) (c # cs) = sub \<or> contains sub cs)"

definition startswith :: "string \<Rightarrow> string \<Rightarrow> bool" where
  "startswith s p = (take (length p) s = p)"

text \<open>\<open>str.splitlines()\<close>: the line boundaries are line feed, carriage return (with a
  following line feed), vertical tab, form feed, the separators \<open>0x1C\<close> to \<open>0x1E\<close> and
  next line \<open>0x85\<close>. The first argument is the line read so far.\<close>

definition linebreak :: "char \<Rightarrow> bool" where
  "linebreak c = (in_range (CHR 0x0A) (CHR 0x0D) c \<or> in_range (CHR 0x1C) (CHR 0x1E) c
     \<or> c = CHR 0x85)"

fun splitlines_from :: "string \<Rightarrow> string \<Rightarrow> string list" where
  "splitlines_from cur [] = (if cur = [] then [] else [cur])"
| "splitlines_from cur [c] = (if linebreak c then [cur] else [cur @ [c]])"
| "splitlines_from cur (c # d # cs) =
     (if c = CHR 0x0D \<and> d = CHR 0x0A then cur # splitlines_from [] cs
      else if linebreak c then cur # splitlines_from [] (d # cs)
      else splitlines_from (cur @ [c]) (d # cs))"

definition splitlines :: "string \<Rightarrow> string list" where
  "splitlines s = splitlines_from [] s"

text \<open>\<open>str.split()\<close>: the maximal runs of characters that are not white space.\<close>

function split :: "string \<Rightarrow> string list" where
  "split s =
     (let s = dropWhile isspace s
      in if s = [] then []
         else takeWhile (\<lambda>c. \<not> isspace c) s # split (dropWhile (\<lambda>c. \<not> isspace c) s))"
  by pat_completeness auto
termination
proof (relation "measure length", goal_cases)
  case 1
  show ?case by simp
next
  case (2 s x)
  have "length (dropWhile (\<lambda>c. \<not> isspace c) x) < length x"
  proof (cases x)
    case Nil
    with 2 show ?thesis by simp
  next
    case (Cons c cs)
    then have "\<not> isspace c" using 2(1) hd_dropWhile[of isspace s] by (metis list.sel(1) list.simps(3))
    then have "length (dropWhile (\<lambda>c. \<not> isspace c) x) \<le> length cs"
      using Cons length_dropWhile_le[of "\<lambda>c. \<not> isspace c" cs] by simp
    then show ?thesis using Cons by simp
  qed
  moreover have "length x \<le> length s" using 2(1) by (simp add: length_dropWhile_le)
  ultimately show ?case by simp
qed

declare split.simps [simp del]

text \<open>\<open>Path(s).name\<close> for a path given as a string: the last component, empty and
  \<open>.\<close> components dropped.\<close>

fun split_on :: "char \<Rightarrow> string \<Rightarrow> string \<Rightarrow> string list" where
  "split_on sep cur [] = [cur]"
| "split_on sep cur (c # cs) =
     (if c = sep then cur # split_on sep [] cs else split_on sep (cur @ [c]) cs)"

definition name_of_path_string :: "string \<Rightarrow> string" where
  "name_of_path_string s =
     (let parts = filter (\<lambda>c. c \<noteq> [] \<and> c \<noteq> ''.'') (split_on CHR ''/'' [] s)
      in if parts = [] then [] else last parts)"

text \<open>\<open>str.capitalize()\<close> on the ASCII shell names it is applied to.\<close>

definition capitalize :: "string \<Rightarrow> string" where
  "capitalize s =
     (case s of
        [] \<Rightarrow> []
      | c # cs \<Rightarrow>
          (if in_range CHR ''a'' CHR ''z'' c then char_of (of_char c - (32::nat)) else c)
            # lower cs)"

section \<open>The file system and the environment\<close>

text \<open>
  A path is the list of its components below the root; \<open>p / "a" / "b"\<close> is
  \<open>p @ [''a'', ''b'']\<close>, and Python compares two paths as the lists of their components.
  What a path names when the program looks at it is a node: a regular file with its
  bytes, a regular file that cannot be read, or anything else (a directory, a socket).
\<close>

type_synonym bytes = "8 word list"

datatype node = File bytes | Unreadable | Other

definition path_name :: "path \<Rightarrow> string" where
  "path_name p = (if p = [] then [] else last p)"

definition path_str :: "path \<Rightarrow> string" where
  "path_str p = (if p = [] then ''/'' else concat (map (\<lambda>c. CHR ''/'' # c) p))"

text \<open>The outcome of \<open>subprocess.run\<close>: the process exits with a status and its two
  outputs, or the timeout expires, or the call raises another exception.\<close>

datatype proc = Exited int string string | TimeoutExpired | Failed string

text \<open>
  The program's view of the machine it runs on. A query is answered by a function of
  its arguments; an operation that can fail and whose failure the program catches
  answers \<open>None\<close> on success and the text of the exception otherwise. The digest
  function of \<open>hashlib\<close> is a field, as it is no part of this program.
\<close>

record world =
  home :: path
  temp_dir :: path
  dry_run :: bool
  is_file :: "path \<Rightarrow> bool"
  is_dir :: "path \<Rightarrow> bool"
  iterdir :: "path \<Rightarrow> path list"
  rglob :: "path \<Rightarrow> (path \<times> node) list"
  which :: "string \<Rightarrow> bool"
  subprocess_run :: "string list \<Rightarrow> nat \<Rightarrow> proc"
  copy2 :: "path \<Rightarrow> path \<Rightarrow> string option"
  tarfile_add :: "path \<Rightarrow> path \<Rightarrow> string option"
  copytree :: "path \<Rightarrow> path \<Rightarrow> string option"
  open_for_writing :: "path \<Rightarrow> string option"
  platform_system :: string
  platform_machine :: string
  uname_release :: "string option"
  platform_node :: "string option"
  environ :: "string \<Rightarrow> string option"
  clock_now :: datetime
  clock_utcnow :: datetime
  sha256_hexdigest :: "bytes \<Rightarrow> string"

section \<open>The manifest checksum (core.py, calculate_checksum)\<close>

text \<open>
  The argument \<open>tree\<close> is what \<open>directory.rglob("*")\<close> yields, in the order in which it
  yields it, each path with the node it names. The hasher's state is the bytes it
  was fed: successive \<open>update\<close> calls hash the concatenation. \<open>hasher_update\<close> is the body
  of the loop, \<open>hashed_bytes\<close> the state after the loop.
\<close>

definition hasher_update :: "bytes \<Rightarrow> path \<times> node \<Rightarrow> bytes" where
  "hasher_update hasher entry =
     (case entry of (filepath, nd) \<Rightarrow>
        if nd \<noteq> Other \<and> path_name filepath \<noteq> ''manifest.json''
        then (case nd of File content \<Rightarrow> hasher @ content | _ \<Rightarrow> hasher)
        else hasher)"

text \<open>What one entry adds to the hasher's state.\<close>

definition contribution :: "path \<times> node \<Rightarrow> bytes" where
  "contribution entry = hasher_update [] entry"

definition hashed_bytes :: "(path \<times> node) list \<Rightarrow> bytes" where
  "hashed_bytes tree = foldl hasher_update [] (sort_key fst tree)"

definition calculate_checksum :: "(bytes \<Rightarrow> string) \<Rightarrow> (path \<times> node) list \<Rightarrow> string" where
  "calculate_checksum hexdigest tree = hexdigest (hashed_bytes tree)"

text \<open>An injective stand-in for the digest function, to evaluate examples: the
  bytes themselves in hexadecimal.\<close>

text \<open>The entries whose name is not that of the manifest file.\<close>

definition not_manifest :: "path \<times> node \<Rightarrow> bool" where
  "not_manifest entry = (path_name (fst entry) \<noteq> ''manifest.json'')"

text \<open>The tree with the file at \<open>p\<close> given new content.\<close>

definition write_file :: "path \<Rightarrow> bytes \<Rightarrow> (path \<times> node) list \<Rightarrow> (path \<times> node) list" where
  "write_file p content tree = map (\<lambda>e. if fst e = p then (p, File content) else e) tree"

definition hex_byte :: "8 word \<Rightarrow> string" where
  "hex_byte b = [''0123456789abcdef'' ! (unat b div 16), ''0123456789abcdef'' ! (unat b mod 16)]"

definition hex_bytes :: "bytes \<Rightarrow> string" where
  "hex_bytes bs = concat (map hex_byte bs)"

section \<open>Commands and file copies (core.py)\<close>

text \<open>
  An event of the file system or of a subprocess records that the program attempted
  the operation; the world tells whether it succeeded. A directory is created with
  \<open>mkdir(parents=True, exist_ok=True)\<close>.
\<close>

definition run_command ::
    "world \<Rightarrow> string list \<Rightarrow> bool \<Rightarrow> nat \<Rightarrow> (int \<times> string \<times> string) \<times> event list" where
  "run_command w cmd check timeout =
     (case subprocess_run w cmd timeout of
        Exited returncode out err \<Rightarrow>
          ((returncode, out, err),
           [Run cmd] @
           (if check \<and> returncode \<noteq> 0
            then [Log ''ERROR'' (''Command failed: '' @ join '' '' cmd),
                  Log ''ERROR'' (''stderr: '' @ err)]
            else []))
      | TimeoutExpired \<Rightarrow>
          ((1, [], ''timeout''),
           [Run cmd, Log ''ERROR'' (''Command timed out: '' @ join '' '' cmd)])
      | Failed e \<Rightarrow>
          ((1, [], e), [Run cmd, Log ''ERROR'' (''Command exception: '' @ e)]))"

definition command_exists :: "world \<Rightarrow> string \<Rightarrow> bool" where
  "command_exists w cmd = which w cmd"

definition copy_file :: "world \<Rightarrow> path \<Rightarrow> path \<Rightarrow> bool \<times> event list" where
  "copy_file w src dest =
     (case copy2 w src dest of
        None \<Rightarrow> (True, [Mkdir (butlast dest), CopyFile src dest])
      | Some e \<Rightarrow>
          (False,
           [Mkdir (butlast dest), CopyFile src dest,
            Log ''ERROR'' (''Failed to copy '' @ path_str src @ '' -> '' @ path_str dest
                            @ '': '' @ e)]))"

section \<open>The backup routines of the categories (backup.py)\<close>

definition backup_fish :: "world \<Rightarrow> path \<Rightarrow> event list" where
  "backup_fish w dest_dir =
     (let fish_dir = home w @ [''.config'', ''fish'']
      in if \<not> is_dir w fish_dir then print_status ''Fish config not found'' ''skip''
         else
           (let shells_dir = dest_dir @ [''shells'', ''fish'']
            in [Mkdir shells_dir] @
               (if dry_run w then print_status ''[DRY RUN] Would backup Fish config'' ''info''
                else
                  [TarCreate (shells_dir @ [''fish_config.tar.gz'']) fish_dir ''fish''] @
                  (case tarfile_add w (shells_dir @ [''fish_config.tar.gz'']) fish_dir of
                     None \<Rightarrow> print_status ''Fish config'' ''ok''
                   | Some e \<Rightarrow> print_error (''Fish backup failed: '' @ e)))))"

text \<open>The body of the loop over the file names in \<open>backup_bash\<close> and \<open>backup_zsh\<close>, on
  the pair of \<open>found\<close> and the events so far.\<close>

definition copy_if_found ::
    "world \<Rightarrow> path \<Rightarrow> string \<Rightarrow> nat \<times> event list \<Rightarrow> nat \<times> event list" where
  "copy_if_found w shells_dir f acc =
     (case acc of (found, evs) \<Rightarrow>
        (let src = home w @ [f]
         in if is_file w src
            then (found + 1,
                  evs @ (if \<not> dry_run w then snd (copy_file w src (shells_dir @ [f])) else []))
            else (found, evs)))"

definition backup_bash :: "world \<Rightarrow> path \<Rightarrow> event list" where
  "backup_bash w dest_dir =
     (let files = [''.bashrc'', ''.bash_aliases'', ''.bash_profile'', ''.profile'', ''.bash_logout''];
          shells_dir = dest_dir @ [''shells'', ''bash''];
          (found, evs) = fold (copy_if_found w shells_dir) files (0, [])
      in [Mkdir shells_dir] @ evs @
         (if found > 0 then print_status (''Bash config ('' @ str_of_nat found @ '' files)'') ''ok''
          else print_status ''Bash config not found'' ''skip''))"

definition backup_zsh :: "world \<Rightarrow> path \<Rightarrow> event list" where
  "backup_zsh w dest_dir =
     (let files = [''.zshrc'', ''.zprofile'', ''.zshenv'', ''.zlogin'', ''.zlogout''];
          shells_dir = dest_dir @ [''shells'', ''zsh''];
          (found, evs) = fold (copy_if_found w shells_dir) files (0, []);
          omz_dir = home w @ [''.oh-my-zsh'']
      in [Mkdir shells_dir] @ evs @
         (if is_dir w omz_dir
          then (if \<not> dry_run w
                then [TarCreate (shells_dir @ [''ohmyzsh.tar.gz'']) omz_dir ''.oh-my-zsh''] @
                     (case tarfile_add w (shells_dir @ [''ohmyzsh.tar.gz'']) omz_dir of
                        None \<Rightarrow> []
                      | Some e \<Rightarrow> [Log ''WARN'' (''Oh-My-Zsh backup failed: '' @ e)])
                else []) @
               print_status ''Zsh config + Oh-My-Zsh'' ''ok''
          else if found > 0
          then print_status (''Zsh config ('' @ str_of_nat found @ '' files)'') ''ok''
          else print_status ''Zsh config not found'' ''skip''))"

text \<open>One sub-command of a package manager: run it, and write its output to the file
  when it exits with status zero. \<open>text_of\<close> is what is written, given the output.\<close>

definition export_list ::
    "world \<Rightarrow> string list \<Rightarrow> path \<Rightarrow> (string \<Rightarrow> string) \<Rightarrow> event list" where
  "export_list w cmd file text_of =
     (case run_command w cmd False 0 of
        ((rc, out, err), evs) \<Rightarrow> evs @ (if rc = 0 then [WriteText file (text_of out)] else []))"

definition backup_packages :: "world \<Rightarrow> path \<Rightarrow> string \<Rightarrow> event list" where
  "backup_packages w dest_dir pm =
     (let pkg_dir = dest_dir @ [''packages'']
      in [Mkdir pkg_dir] @
         (if dry_run w
          then print_status (''[DRY RUN] Would backup package list ('' @ pm @ '')'') ''info''
          else if pm = ''apt''
          then export_list w [''apt'', ''list'', ''--installed''] (pkg_dir @ [''apt_packages.txt''])
                 (\<lambda>out. join [CHR 0x0A]
                    (filter (\<lambda>l. \<not> contains ''Listing...'' l) (splitlines out)) @ [CHR 0x0A]) @
               export_list w [''apt-mark'', ''showmanual''] (pkg_dir @ [''apt_manual.txt''])
                 (\<lambda>out. out) @
               print_status ''APT packages'' ''ok''
          else if pm = ''brew''
          then concat (map (\<lambda>(sub, fname).
                   export_list w (''brew'' # split sub) (pkg_dir @ [fname]) (\<lambda>out. out))
                 [(''list --formula'', ''brew_formula.txt''), (''list --cask'', ''brew_cask.txt''),
                  (''leaves'', ''brew_leaves.txt'')]) @
               print_status ''Homebrew packages'' ''ok''
          else if pm \<in> set [''dnf'', ''yum'']
          then export_list w [''rpm'', ''-qa''] (pkg_dir @ [''rpm_packages.txt'']) (\<lambda>out. out) @
               print_status ''RPM packages'' ''ok''
          else if pm = ''pacman''
          then export_list w [''pacman'', ''-Qe''] (pkg_dir @ [''pacman_packages.txt''])
                 (\<lambda>out. out) @
               export_list w [''pacman'', ''-Qm''] (pkg_dir @ [''pacman_aur.txt'']) (\<lambda>out. out) @
               print_status ''Pacman packages'' ''ok''
          else print_status (''Package manager not supported: '' @ pm) ''skip''))"

definition backup_starship :: "world \<Rightarrow> path \<Rightarrow> event list" where
  "backup_starship w dest_dir =
     (let src = home w @ [''.config'', ''starship.toml'']
      in if \<not> is_file w src then print_status ''Starship config not found'' ''skip''
         else
           (let cfg_dir = dest_dir @ [''config'']
            in [Mkdir cfg_dir] @
               (if \<not> dry_run w then snd (copy_file w src (cfg_dir @ [''starship.toml''])) else []) @
               print_status ''Starship config'' ''ok''))"

definition backup_git_config :: "world \<Rightarrow> path \<Rightarrow> event list" where
  "backup_git_config w dest_dir =
     (let src = home w @ [''.gitconfig'']
      in if \<not> is_file w src then print_status ''Git config not found'' ''skip''
         else
           (let cfg_dir = dest_dir @ [''config'']
            in [Mkdir cfg_dir] @
               (if \<not> dry_run w then snd (copy_file w src (cfg_dir @ [''.gitconfig''])) else []) @
               print_status ''Git config'' ''ok''))"

definition backup_ssh :: "world \<Rightarrow> path \<Rightarrow> bool \<times> event list" where
  "backup_ssh w dest_dir =
     (let ssh_dir = home w @ [''.ssh'']
      in if \<not> is_dir w ssh_dir then (True, print_status ''SSH directory not found'' ''skip'')
         else
           (let out_dir = dest_dir @ [''ssh'']
            in if dry_run w
               then (True, [Mkdir out_dir] @ print_status ''[DRY RUN] Would backup SSH keys'' ''info'')
               else
                 (case tarfile_add w (out_dir @ [''ssh_backup.tar.gz'']) ssh_dir of
                    None \<Rightarrow>
                      (True,
                       [Mkdir out_dir, TarCreate (out_dir @ [''ssh_backup.tar.gz'']) ssh_dir ''.ssh'']
                       @ print_status ''SSH keys'' ''ok'')
                  | Some e \<Rightarrow>
                      (False,
                       [Mkdir out_dir, TarCreate (out_dir @ [''ssh_backup.tar.gz'']) ssh_dir ''.ssh'']
                       @ print_status ''SSH keys backup failed'' ''error''
                       @ [Log ''ERROR'' (''SSH backup error: '' @ e)]))))"

text \<open>The loop of \<open>backup_conda\<close> over the lines of \<open>conda env list\<close>: its body on the
  list \<open>envs\<close> so far, and the loop. \<open>parts[0]\<close> raises \<open>IndexError\<close> on an empty list.\<close>

definition conda_env_line :: "string \<Rightarrow> exn + string list \<Rightarrow> exn + string list" where
  "conda_env_line line acc =
     (case acc of
        Inl e \<Rightarrow> Inl e
      | Inr envs \<Rightarrow>
          (let line = strip line
           in if line = [] \<or> startswith line ''#'' then Inr envs
              else
                (case split line of
                   [] \<Rightarrow> Inl IndexError
                 | name # rest \<Rightarrow>
                     if name \<noteq> ''*''
                        \<and> isalnum (filter (\<lambda>c. c \<noteq> CHR ''_'') (filter (\<lambda>c. c \<noteq> CHR ''-'') name))
                     then Inr (envs @ [name])
                     else Inr envs)))"

definition conda_envs :: "string \<Rightarrow> exn + string list" where
  "conda_envs out = fold conda_env_line (splitlines out) (Inr [])"

text \<open>The loop over the environments: its body on the pair of \<open>count\<close> and the events so
  far.\<close>

definition conda_export ::
    "world \<Rightarrow> string \<Rightarrow> path \<Rightarrow> string \<Rightarrow> nat \<times> event list \<Rightarrow> nat \<times> event list" where
  "conda_export w conda_bin conda_dir env acc =
     (case acc of (cnt, evs) \<Rightarrow>
        (case run_command w [conda_bin, ''env'', ''export'', ''-n'', env] False 30 of
           ((rc, out, err), evs') \<Rightarrow>
             if rc = 0
             then (cnt + 1, evs @ evs' @ [WriteText (conda_dir @ [env @ ''.yml'']) out])
             else (cnt, evs @ evs')))"

definition backup_conda :: "world \<Rightarrow> path \<Rightarrow> (exn + bool) \<times> event list" where
  "backup_conda w dest_dir =
     (let conda_paths =
            [home w @ [''miniconda3''], home w @ [''anaconda3''], home w @ [''miniforge3''],
             [''opt'', ''homebrew'', ''Caskroom'', ''miniconda'', ''base''],
             [''usr'', ''local'', ''miniconda3'']]
      in case find (\<lambda>p. is_file w (p @ [''bin'', ''conda''])) conda_paths of
           None \<Rightarrow> (Inr True, print_status ''Conda not found'' ''skip'')
         | Some conda_path \<Rightarrow>
             (let conda_dir = dest_dir @ [''conda'']
              in if dry_run w
                 then (Inr True,
                       [Mkdir conda_dir]
                       @ print_status ''[DRY RUN] Would backup Conda environments'' ''info'')
                 else
                   (let conda_bin = path_str (conda_path @ [''bin'', ''conda''])
                    in case run_command w [conda_bin, ''env'', ''list''] False 10 of
                         ((rc, out, err), evs) \<Rightarrow>
                           if rc \<noteq> 0
                           then (Inr True,
                                 [Mkdir conda_dir] @ evs
                                 @ print_status ''Conda environments (timeout or error)'' ''warn'')
                           else
                             (case conda_envs out of
                                Inl e \<Rightarrow> (Inl e, [Mkdir conda_dir] @ evs)
                              | Inr envs \<Rightarrow>
                                  (case fold (conda_export w conda_bin conda_dir) envs (0, []) of
                                     (cnt, evs') \<Rightarrow>
                                       (Inr True,
                                        [Mkdir conda_dir] @ evs @ evs' @
                                        (if cnt > 0
                                         then print_status
                                                (''Conda environments ('' @ str_of_nat cnt @ '')'')
                                                ''ok''
                                         else print_status
                                                ''Conda environments (none exported)'' ''warn'')))))))"

text \<open>The loop of \<open>backup_history\<close> over the two history files: its body on the pair of
  \<open>found\<close> and the events so far.\<close>

definition copy_history ::
    "world \<Rightarrow> path \<Rightarrow> string \<Rightarrow> bool \<times> event list \<Rightarrow> bool \<times> event list" where
  "copy_history w history_dir name acc =
     (case acc of (found, evs) \<Rightarrow>
        (let src = home w @ [name]
         in if is_file w src
            then (case copy_file w src (history_dir @ [name]) of
                    (ok, evs') \<Rightarrow> (if ok then True else found, evs @ evs'))
            else (found, evs)))"

definition backup_history :: "world \<Rightarrow> path \<Rightarrow> event list" where
  "backup_history w dest_dir =
     (let history_dir = dest_dir @ [''history'']
      in [Mkdir history_dir] @
         (if dry_run w then print_status ''[DRY RUN] Would backup shell history'' ''info''
          else
            (case fold (copy_history w history_dir) [''.bash_history'', ''.zsh_history''] (False, []) of
               (found, evs) \<Rightarrow>
                 (let fish_hist = home w @ [''.local'', ''share'', ''fish''];
                      copied = (is_dir w fish_hist
                                \<and> copytree w fish_hist (history_dir @ [''fish'']) = None);
                      found = (if copied then True else found)
                  in evs @
                     (if is_dir w fish_hist then [CopyTree fish_hist (history_dir @ [''fish''])]
                      else []) @
                     (if found then print_status ''Shell history'' ''ok''
                      else print_status ''Shell history (not found)'' ''skip'')))))"

text \<open>The loop of \<open>backup_cloud_creds\<close> over the three providers: its body on the pair
  of \<open>found\<close> and the events so far.\<close>

definition archive_cloud ::
    "world \<Rightarrow> path \<Rightarrow> string \<times> path \<times> string \<Rightarrow> nat \<times> event list \<Rightarrow> nat \<times> event list" where
  "archive_cloud w cloud_dir provider acc =
     (case (provider, acc) of ((name, src_path, arcname), (found, evs)) \<Rightarrow>
        if is_dir w src_path
        then (case tarfile_add w (cloud_dir @ [name @ ''.tar.gz'']) src_path of
                None \<Rightarrow>
                  (found + 1, evs @ [TarCreate (cloud_dir @ [name @ ''.tar.gz'']) src_path arcname])
              | Some e \<Rightarrow>
                  (found,
                   evs @ [TarCreate (cloud_dir @ [name @ ''.tar.gz'']) src_path arcname,
                          Log ''WARN'' (''Cloud creds backup failed for '' @ name @ '': '' @ e)]))
        else (found, evs))"

definition backup_cloud_creds :: "world \<Rightarrow> path \<Rightarrow> event list" where
  "backup_cloud_creds w dest_dir =
     (let cloud_dir = dest_dir @ [''config'', ''cloud''];
          (found, evs) =
            (if \<not> dry_run w
             then fold (archive_cloud w cloud_dir)
                    [(''aws'', home w @ [''.aws''], ''.aws''),
                     (''azure'', home w @ [''.azure''], ''.azure''),
                     (''gcloud'', home w @ [''.config'', ''gcloud''], ''gcloud'')]
                    (0, [])
             else (0, []))
      in [Mkdir cloud_dir] @ evs @
         (if found > 0 \<or> dry_run w
          then print_status (''Cloud credentials ('' @ str_of_nat found @ '')'') ''ok''
          else print_status ''Cloud credentials not found'' ''skip''))"

section \<open>Detection of the environment (core.py)\<close>

definition detect_os :: "world \<Rightarrow> string \<times> string" where
  "detect_os w =
     (let system = lower (platform_system w);
          machine = lower (platform_machine w);
          arch = (if machine \<in> set [''x86_64'', ''amd64''] then ''amd64''
                  else if machine \<in> set [''arm64'', ''aarch64''] then ''arm64''
                  else if machine = ''armv7l'' then ''arm''
                  else machine)
      in if system = ''darwin'' then (''macos'', arch)
         else if system = ''linux''
         then (let release = (case uname_release w of None \<Rightarrow> [] | Some r \<Rightarrow> lower r)
               in if contains ''microsoft'' release then (''wsl'', arch) else (''linux'', arch))
         else (system, arch))"

definition detect_package_manager :: "world \<Rightarrow> string \<Rightarrow> string" where
  "detect_package_manager w os_name =
     (if os_name = ''macos'' then ''brew''
      else (case find (command_exists w) [''apt'', ''dnf'', ''yum'', ''pacman'', ''zypper'', ''apk''] of
              Some pm \<Rightarrow> pm
            | None \<Rightarrow> ''unknown''))"

definition detect_shell :: "world \<Rightarrow> string" where
  "detect_shell w =
     name_of_path_string (case environ w ''SHELL'' of None \<Rightarrow> ''/bin/bash'' | Some shell \<Rightarrow> shell)"

definition get_hostname :: "world \<Rightarrow> string" where
  "get_hostname w =
     (case platform_node w of
        None \<Rightarrow> ''unknown''
      | Some node \<Rightarrow> if node = [] then ''unknown'' else node)"

definition check_dependencies :: "world \<Rightarrow> bool \<times> event list" where
  "check_dependencies w =
     (let pm = detect_package_manager w (fst (detect_os w));
          missing = filter (\<lambda>dep. \<not> command_exists w dep) [''git'', ''curl'', ''tar''];
          required = concat (map (\<lambda>dep. if command_exists w dep then print_status dep ''ok''
                                          else print_status (dep @ '' - MISSING'') ''error'')
                               [''git'', ''curl'', ''tar'']);
          optional = concat (map (\<lambda>(dep, label).
                                   if command_exists w dep then print_status label ''ok''
                                   else print_status (label @ '' - not installed'') ''skip'')
                               [(''jq'', ''jq (JSON parsing)''), (''ssh'', ''ssh'')]);
          hint = (if pm = ''apt''
                  then ''sudo apt update && sudo apt install -y '' @ join '' '' missing
                  else if pm = ''brew'' then ''brew install '' @ join '' '' missing
                  else if pm = ''dnf'' then ''sudo dnf install -y '' @ join '' '' missing
                  else if pm = ''pacman'' then ''sudo pacman -S '' @ join '' '' missing
                  else ''Please install: '' @ join '' '' missing)
      in if missing \<noteq> []
         then (False,
               required @ [Print ''  Optional:''] @ optional
               @ print_error (''Missing required dependencies: '' @ join '' '' missing)
               @ [Print ''  Install them with:'', Print (''    '' @ hint)])
         else (True, required @ [Print ''  Optional:''] @ optional))"

section \<open>Git transport (core.py)\<close>

definition clone_repo :: "world \<Rightarrow> string \<Rightarrow> path \<Rightarrow> bool \<times> event list" where
  "clone_repo w repo_url dest_dir =
     (if dry_run w then (True, print_status (''[DRY RUN] Would clone: '' @ repo_url) ''info'')
      else
        (case run_command w [''git'', ''clone'', ''--depth'', ''1'', repo_url, path_str dest_dir]
                False 0 of
           ((rc, out, err), evs) \<Rightarrow>
             if rc = 0
             then (True,
                   [Log ''INFO'' (''Cloning repository: '' @ repo_url @ '' -> '' @ path_str dest_dir)]
                   @ evs @ print_status ''Repository cloned'' ''ok'')
             else (False,
                   [Log ''INFO'' (''Cloning repository: '' @ repo_url @ '' -> '' @ path_str dest_dir)]
                   @ evs @ [Log ''ERROR'' (''Clone failed: '' @ err)])))"

definition init_repo :: "world \<Rightarrow> path \<Rightarrow> string \<Rightarrow> bool \<times> event list" where
  "init_repo w dest_dir repo_url =
     (case run_command w [''git'', ''init''] False 0 of
        ((rc, out, err), evs) \<Rightarrow>
          if rc \<noteq> 0 then (False, [Mkdir dest_dir] @ evs)
          else (True,
                [Mkdir dest_dir] @ evs
                @ snd (run_command w
                         [''git'', ''-C'', path_str dest_dir, ''remote'', ''add'', ''origin'', repo_url]
                         False 0)))"

text \<open>The loop of \<open>push_to_repo\<close> over the branches \<open>main\<close> and \<open>master\<close>: it returns at
  the first push that succeeds; \<open>err\<close> is the error output of the last push.\<close>

fun push_branches :: "world \<Rightarrow> path \<Rightarrow> string list \<Rightarrow> string \<Rightarrow> bool \<times> event list" where
  "push_branches w repo_dir [] err =
     (False,
      print_error ''Push failed - check authentication and network''
      @ [Print (''  Push error: '' @ err)])"
| "push_branches w repo_dir (branch # branches) err =
     (case run_command w [''git'', ''-C'', path_str repo_dir, ''push'', ''-u'', ''origin'', branch]
             False 60 of
        ((rc, out, err'), evs) \<Rightarrow>
          if rc = 0 \<or> contains ''Everything up-to-date'' err' then (True, evs)
          else (case push_branches w repo_dir branches err' of
                  (ok, evs') \<Rightarrow> (ok, evs @ evs')))"

definition push_to_repo :: "world \<Rightarrow> path \<Rightarrow> string \<Rightarrow> bool \<times> event list" where
  "push_to_repo w repo_dir message =
     (if dry_run w then (True, print_status (''[DRY RUN] Would push: '' @ message) ''info'')
      else
        (case run_command w [''git'', ''-C'', path_str repo_dir, ''add'', ''-A''] False 0 of
           ((rc, out, err), add_evs) \<Rightarrow>
             if rc \<noteq> 0
             then (False,
                   [Log ''INFO'' (''Pushing to repository: '' @ message), Print ''  Staging files...'']
                   @ add_evs @ print_error (''git add failed: '' @ err))
             else
               (case run_command w [''git'', ''-C'', path_str repo_dir, ''commit'', ''-m'', message]
                       False 0 of
                  ((rc, out, err), commit_evs) \<Rightarrow>
                    (let diff_evs =
                           (if rc \<noteq> 0
                            then (case run_command w
                                         [''git'', ''-C'', path_str repo_dir, ''diff'', ''--cached'',
                                          ''--quiet''] False 0 of
                                    ((rc2, out2, err2), evs) \<Rightarrow>
                                      evs @ (if rc2 = 0
                                             then [Log ''INFO'' ''No changes to commit'',
                                                   Print ''  No changes to commit'']
                                             else []))
                            else [])
                     in case push_branches w repo_dir [''main'', ''master''] err of
                          (ok, push_evs) \<Rightarrow>
                            (ok,
                             [Log ''INFO'' (''Pushing to repository: '' @ message),
                              Print ''  Staging files...'']
                             @ add_evs @ [Print ''  Creating commit...''] @ commit_evs @ diff_evs
                             @ [Print ''  Pushing to remote...''] @ push_evs)))))"

text \<open>\<open>re.match(r"git@([^:]+):", repo_url)\<close>: the host, when the URL starts with \<open>git@\<close>,
  one or more characters other than a colon, and a colon.\<close>

definition match_git_host :: "string \<Rightarrow> string option" where
  "match_git_host repo_url =
     (let rest = drop 4 repo_url;
          host = takeWhile (\<lambda>c. c \<noteq> CHR '':'') rest
      in if startswith repo_url ''git@'' \<and> host \<noteq> [] \<and> length host < length rest
         then Some host else None)"

definition verify_ssh_connection :: "world \<Rightarrow> string \<Rightarrow> bool \<times> event list" where
  "verify_ssh_connection w repo_url =
     (case match_git_host repo_url of
        None \<Rightarrow> (True, [])
      | Some host \<Rightarrow>
          (case run_command w
                  [''ssh'', ''-T'', ''-o'', ''StrictHostKeyChecking=no'', ''-o'', ''ConnectTimeout=10'',
                   ''git@'' @ host] False 15 of
             ((rc, out, err), evs) \<Rightarrow>
               (let combined = out @ err
                in if contains ''successfully authenticated'' (lower combined)
                      \<or> contains ''hi '' (lower combined)
                   then (True,
                         [Print ''  Verifying SSH connection...''] @ evs
                         @ print_status ''SSH connection verified'' ''ok'')
                   else (False,
                         [Print ''  Verifying SSH connection...''] @ evs
                         @ print_error (''SSH authentication failed for '' @ host)
                         @ [Print [], Print ''  Please ensure:'',
                            Print ''  1. Your SSH key is added to your GitHub/GitLab account'',
                            Print ''  2. Your SSH key is loaded in ssh-agent'',
                            Print ''  3. You have access to the repository'']))))"

section \<open>The manifest (core.py, create_manifest)\<close>

text \<open>\<open>strftime("%Y-%m-%dT%H:%M:%SZ")\<close> and \<open>strftime("%Y%m%d")\<close>.\<close>

definition strftime_iso :: "datetime \<Rightarrow> string" where
  "strftime_iso t = zero_pad 4 (year t) @ ''-'' @ zero_pad 2 (month t) @ ''-'' @ zero_pad 2 (day t)
     @ ''T'' @ zero_pad 2 (hour t) @ '':'' @ zero_pad 2 (minute t) @ '':''
     @ zero_pad 2 (second t) @ ''Z''"

definition strftime_date :: "datetime \<Rightarrow> string" where
  "strftime_date t = zero_pad 4 (year t) @ zero_pad 2 (month t) @ zero_pad 2 (day t)"

text \<open>The manifest is written twice, the second time with the checksum of the backup
  directory, whose files \<open>rglob\<close> lists. A \<open>WriteManifest\<close> event stands for
  \<open>json.dump(manifest, f, indent=4)\<close> into the file.\<close>

definition create_manifest ::
    "world \<Rightarrow> path \<Rightarrow> string \<Rightarrow> string \<Rightarrow> string list \<Rightarrow> string \<Rightarrow> string \<Rightarrow> string
       \<Rightarrow> bool \<times> event list" where
  "create_manifest w dest_dir backup_name backup_type shells os_name arch pm =
     (if dry_run w then (True, print_status ''[DRY RUN] Would create manifest'' ''info'')
      else
        (let manifest =
               \<lparr>m_version = ''2.0.0'', m_created = strftime_iso (clock_utcnow w),
                m_backup_name = backup_name, m_backup_type = backup_type,
                m_user = (case environ w ''USER'' of None \<Rightarrow> ''unknown'' | Some u \<Rightarrow> u),
                m_hostname = get_hostname w, m_os = os_name, m_arch = arch,
                m_package_manager = pm, m_default_shell = detect_shell w,
                m_shells = shells, m_checksum = []\<rparr>;
             manifest_path = dest_dir @ [''manifest.json'']
         in case open_for_writing w manifest_path of
              Some e \<Rightarrow> (False, print_error (''Failed to write manifest: '' @ e))
            | None \<Rightarrow>
                (let checksum = calculate_checksum (sha256_hexdigest w) (rglob w dest_dir)
                 in (True,
                     [WriteManifest manifest_path manifest, Print ''  Calculating checksum...'',
                      WriteManifest manifest_path (manifest\<lparr>m_checksum := checksum\<rparr>)]
                     @ print_status ''Manifest created'' ''ok''))))"

section \<open>The backup orchestrator (backup.py, do_backup)\<close>

text \<open>The local variables of \<open>do_backup\<close> once the questions are answered.\<close>

record selections =
  sel_os_name :: string
  sel_arch :: string
  sel_pm :: string
  sel_repo_url :: string
  sel_backup_name :: string
  sel_is_shareable :: bool
  sel_include_ssh :: bool
  sel_include_git_cfg :: bool
  sel_include_history :: bool
  sel_include_cloud_creds :: bool
  sel_include_conda :: bool
  sel_shells_to_backup :: "string list"

text \<open>\<open>p / name\<close> for a name without a slash: a name \<open>.\<close> adds no component.\<close>

definition child :: "path \<Rightarrow> string \<Rightarrow> path" where
  "child p name = (if name = ''.'' then p else p @ [name])"

text \<open>The choice of the data to include, after the backup type is chosen: the values of
  \<open>include_ssh\<close>, \<open>include_git_cfg\<close>, \<open>include_history\<close>, \<open>include_cloud_creds\<close> and
  \<open>include_conda\<close>, in this order.\<close>

definition select_data ::
    "bool \<Rightarrow> stdin \<Rightarrow> (bool \<times> bool \<times> bool \<times> bool \<times> bool) \<times> event list \<times> stdin" where
  "select_data is_shareable inp =
     (if is_shareable
      then (case read_yes_no ''Include Conda environments?'' True inp of
              (include_conda, evs, inp') \<Rightarrow>
                ((False, False, False, False, include_conda), evs, inp'))
      else
        (case read_yes_no ''Include SSH keys?'' True inp of
           (include_ssh, evs1, inp1) \<Rightarrow>
        (case read_yes_no ''Include Git config?'' True inp1 of
           (include_git_cfg, evs2, inp2) \<Rightarrow>
        (case read_yes_no ''Include shell history?'' False inp2 of
           (include_history, evs3, inp3) \<Rightarrow>
        (case read_yes_no ''Include cloud credentials (AWS/Azure/GCP)?'' False inp3 of
           (include_cloud_creds, evs4, inp4) \<Rightarrow>
        (case read_yes_no ''Include Conda environments?'' True inp4 of
           (include_conda, evs5, inp5) \<Rightarrow>
             ((include_ssh, include_git_cfg, include_history, include_cloud_creds, include_conda),
              evs1 @ evs2 @ evs3 @ evs4 @ evs5, inp5)))))))"

text \<open>The body of the loop over the shells \<open>fish\<close>, \<open>bash\<close> and \<open>zsh\<close>, on the list
  \<open>shells_to_backup\<close>, the events and the input so far.\<close>

definition select_shell ::
    "world \<Rightarrow> string \<Rightarrow> string list \<times> event list \<times> stdin \<Rightarrow> string list \<times> event list \<times> stdin" where
  "select_shell w shell_name acc =
     (case acc of (shells_to_backup, evs, inp) \<Rightarrow>
        if command_exists w shell_name
        then (case read_yes_no (''    Backup '' @ capitalize shell_name @ ''?'') True inp of
                (yes, evs', inp') \<Rightarrow>
                  (if yes then shells_to_backup @ [shell_name] else shells_to_backup,
                   evs @ evs', inp'))
        else (shells_to_backup, evs, inp))"

text \<open>\<open>do_backup\<close> up to the end of the shell selection: it leaves with an exception, or
  with the selections made; it does not return when \<open>read_choice\<close> does not.\<close>

definition do_backup_prompts ::
    "world \<Rightarrow> stdin \<Rightarrow> ((exn + selections) \<times> event list \<times> stdin) option" where
  "do_backup_prompts w inp =
     (case check_dependencies w of
        (deps_ok, evs0) \<Rightarrow>
          if \<not> deps_ok then Some (Inl (SystemExit 1), evs0, inp)
          else
            (let os_name = fst (detect_os w);
                 arch = snd (detect_os w);
                 pm = detect_package_manager w os_name;
                 evs1 = print_status (''Operating System: '' @ os_name @ '' ('' @ arch @ '')'') ''info''
                        @ print_status (''Package Manager: '' @ pm) ''info''
             in case read_input ''Repository URL'' [] inp of
                  (repo_url, evs2, inp2) \<Rightarrow>
                    if repo_url = []
                    then Some (Inl (SystemExit 1),
                               evs0 @ evs1 @ evs2 @ print_error ''Repository URL is required'', inp2)
                    else
                      (let hostname = filter (\<lambda>c. isalnum_char c \<or> c = CHR ''-'')
                                        (lower (get_hostname w));
                           default_shell = detect_shell w;
                           date_stamp = strftime_date (clock_now w);
                           default_name = default_shell @ ''-'' @ hostname @ ''-'' @ date_stamp
                       in case read_input ''Backup name'' default_name inp2 of
                            (name, evs3, inp3) \<Rightarrow>
                              (let backup_name = sanitize_name (clock_now w) name
                               in case read_choice ''Select backup type''
                                         [''Full backup (personal use)'',
                                          ''Shareable backup (safe to share)''] inp3 of
                                    None \<Rightarrow> None
                                  | Some (Inl e, evs4, inp4) \<Rightarrow>
                                      Some (Inl e, evs0 @ evs1 @ evs2 @ evs3 @ evs4, inp4)
                                  | Some (Inr type_choice, evs4, inp4) \<Rightarrow>
                                      (let is_shareable = (type_choice = 2)
                                       in case select_data is_shareable inp4 of
                                            ((include_ssh, include_git_cfg, include_history,
                                              include_cloud_creds, include_conda), evs5, inp5) \<Rightarrow>
                                              (case fold (select_shell w) [''fish'', ''bash'', ''zsh'']
                                                      ([], [], inp5) of
                                                 (shells_to_backup, evs6, inp6) \<Rightarrow>
                                                   Some (Inr \<lparr>sel_os_name = os_name, sel_arch = arch,
                                                              sel_pm = pm, sel_repo_url = repo_url,
                                                              sel_backup_name = backup_name,
                                                              sel_is_shareable = is_shareable,
                                                              sel_include_ssh = include_ssh,
                                                              sel_include_git_cfg = include_git_cfg,
                                                              sel_include_history = include_history,
                                                              sel_include_cloud_creds = include_cloud_creds,
                                                              sel_include_conda = include_conda,
                                                              sel_shells_to_backup = shells_to_backup\<rparr>,
                                                         evs0 @ evs1 @ evs2 @ evs3 @ evs4 @ evs5 @ evs6,
                                                         inp6)))))))"

text \<open>The backups of the categories, in their order. An \<open>Invoke\<close> event marks the call of
  a routine, before the events of the routine.\<close>

definition backup_shell :: "world \<Rightarrow> path \<Rightarrow> string \<Rightarrow> event list" where
  "backup_shell w backup_dir shell =
     (if shell = ''fish'' then [Invoke ''backup_fish''] @ backup_fish w backup_dir
      else if shell = ''bash'' then [Invoke ''backup_bash''] @ backup_bash w backup_dir
      else if shell = ''zsh'' then [Invoke ''backup_zsh''] @ backup_zsh w backup_dir
      else [])"

definition run_category_backups :: "world \<Rightarrow> selections \<Rightarrow> path \<Rightarrow> (exn + unit) \<times> event list" where
  "run_category_backups w sel backup_dir =
     (let shells_evs = concat (map (backup_shell w backup_dir) (sel_shells_to_backup sel));
          packages_evs = [Invoke ''backup_packages''] @ backup_packages w backup_dir (sel_pm sel);
          starship_evs = [Invoke ''backup_starship''] @ backup_starship w backup_dir;
          git_evs = (if sel_include_git_cfg sel
                     then [Invoke ''backup_git_config''] @ backup_git_config w backup_dir
                     else print_status ''Git config (excluded)'' ''skip'');
          ssh_evs = (if sel_include_ssh sel
                     then (case backup_ssh w backup_dir of
                             (ok, evs) \<Rightarrow>
                               [Invoke ''backup_ssh''] @ evs
                               @ (if \<not> ok then print_error ''SSH backup failed, but continuing...''
                                  else []))
                     else print_status ''SSH keys (excluded)'' ''skip'');
          history_evs = (if sel_include_history sel
                         then [Invoke ''backup_history''] @ backup_history w backup_dir
                         else print_status ''Shell history (excluded)'' ''skip'');
          cloud_evs = (if sel_include_cloud_creds sel
                       then [Invoke ''backup_cloud_creds''] @ backup_cloud_creds w backup_dir
                       else print_status ''Cloud credentials (excluded)'' ''skip'');
          before_conda = shells_evs @ packages_evs @ starship_evs @ git_evs @ ssh_evs
      in if sel_include_conda sel
         then (case backup_conda w backup_dir of
                 (Inl e, evs) \<Rightarrow> (Inl e, before_conda @ [Invoke ''backup_conda''] @ evs)
               | (Inr ok, evs) \<Rightarrow>
                   (Inr (),
                    before_conda @ [Invoke ''backup_conda''] @ evs @ history_evs @ cloud_evs))
         else (Inr (),
               before_conda @ print_status ''Conda environments (excluded)'' ''skip''
               @ history_evs @ cloud_evs))"

text \<open>The end of \<open>do_backup\<close>, from the check of the SSH connection to the push.\<close>

definition do_backup_push :: "world \<Rightarrow> selections \<Rightarrow> path \<Rightarrow> (exn + unit) \<times> event list" where
  "do_backup_push w sel backup_dir =
     (let repo_url = sel_repo_url sel;
          backup_name = sel_backup_name sel;
          git_dir = temp_dir w @ [''git''];
          (ssh_ok, ssh_evs) = (if startswith repo_url ''git@'' then verify_ssh_connection w repo_url
                               else (True, []))
      in if \<not> ssh_ok
         then (Inl (SystemExit 1),
               ssh_evs @ [Print [], Print ''  Your backup is saved locally at:'',
                          Print (''  '' @ path_str backup_dir)])
         else
           (case clone_repo w repo_url git_dir of
              (cloned, clone_evs) \<Rightarrow>
                (let (inited, init_evs) =
                       (if \<not> cloned
                        then (case init_repo w git_dir repo_url of
                                (ok, evs) \<Rightarrow>
                                  (ok, [Print ''  Clone failed, initializing new repository...'']
                                       @ evs))
                        else (True, []));
                     repo_evs = ssh_evs @ [Print ''  Cloning repository...''] @ clone_evs @ init_evs
                 in if \<not> inited
                    then (Inl (SystemExit 1),
                          repo_evs @ print_error ''Failed to initialize git repository'')
                    else
                      (let backups_dest = git_dir @ [''backups''];
                           copy_evs = [Mkdir backups_dest, Print ''  Copying backup files...'',
                                       CopyTree backup_dir (child backups_dest backup_name)]
                       in case copytree w backup_dir (child backups_dest backup_name) of
                            Some e \<Rightarrow>
                              (Inl (SystemExit 1),
                               repo_evs @ copy_evs
                               @ print_error (''Failed to copy backup files: '' @ e))
                          | None \<Rightarrow>
                              (case push_to_repo w git_dir (''Backup: '' @ backup_name) of
                                 (pushed, push_evs) \<Rightarrow>
                                   if pushed
                                   then (Inr (),
                                         repo_evs @ copy_evs
                                         @ print_status ''Backup files copied'' ''ok'' @ push_evs
                                         @ print_status ''Pushed to repository'' ''ok'')
                                   else (Inl (SystemExit 1),
                                         repo_evs @ copy_evs
                                         @ print_status ''Backup files copied'' ''ok'' @ push_evs
                                         @ print_error ''Failed to push to repository''
                                         @ [Print [], Print ''  Your backup is saved locally at:'',
                                            Print (''  '' @ path_str backup_dir), Print [],
                                            Print ''  You can manually push it later:'',
                                            Print (''  cd '' @ path_str git_dir
                                                   @ '' && git push -u origin main'')]))))))"

text \<open>\<open>do_backup\<close> after the questions: the backup tree, the categories, the manifest and
  the push. The estimate of the size, which is only printed, is left out.\<close>

definition do_backup_run :: "world \<Rightarrow> selections \<Rightarrow> (exn + unit) \<times> event list" where
  "do_backup_run w sel =
     (let backup_dir = child (temp_dir w @ [''backup'']) (sel_backup_name sel);
          setup_evs = Mkdir (temp_dir w)
                      # map (\<lambda>sub. Mkdir (backup_dir @ [sub]))
                          [''shells'', ''packages'', ''config'', ''conda'', ''ssh'']
      in case run_category_backups w sel backup_dir of
           (Inl e, evs) \<Rightarrow> (Inl e, setup_evs @ evs)
         | (Inr u, evs) \<Rightarrow>
             (let backup_type = (if sel_is_shareable sel then ''shareable'' else ''full'');
                  manifest_evs = snd (create_manifest w backup_dir (sel_backup_name sel) backup_type
                                        (sel_shells_to_backup sel) (sel_os_name sel) (sel_arch sel)
                                        (sel_pm sel))
              in case do_backup_push w sel backup_dir of
                   (r, push_evs) \<Rightarrow> (r, setup_evs @ evs @ manifest_evs @ push_evs)))"

definition do_backup :: "world \<Rightarrow> stdin \<Rightarrow> ((exn + unit) \<times> event list) option" where
  "do_backup w inp =
     (case do_backup_prompts w inp of
        None \<Rightarrow> None
      | Some (Inl e, evs, inp') \<Rightarrow> Some (Inl e, evs)
      | Some (Inr sel, evs, inp') \<Rightarrow>
          (case do_backup_run w sel of (r, evs') \<Rightarrow> Some (r, evs @ evs')))"

section \<open>The restore orchestrator (restore.py, do_restore)\<close>

text \<open>
  \<open>do_restore\<close> is modelled up to the choice of the backup: it leaves with an exception,
  or goes on with the name and the directory of the chosen backup and the list
  \<open>backups\<close> it offered. \<open>list_backups\<close> is that list.
\<close>

definition list_backups :: "world \<Rightarrow> path \<Rightarrow> string list" where
  "list_backups w backups_dir =
     (if is_dir w backups_dir
      then sort (map path_name (filter (is_dir w) (iterdir w backups_dir)))
      else [])"

text \<open>The choice among the backups found, which are not empty: the lines of
  \<open>do_restore\<close> from the count of the backups to the status line of the selection.\<close>

definition choose_backup ::
    "path \<Rightarrow> string list \<Rightarrow> stdin
       \<Rightarrow> ((exn + string \<times> path \<times> string list) \<times> event list \<times> stdin) option" where
  "choose_backup backups_dir backups inp =
     (let found_evs = print_status (''Found '' @ str_of_nat (length backups) @ '' backup(s)'') ''ok''
      in case read_choice ''Choose backup to restore'' backups inp of
           None \<Rightarrow> None
         | Some (Inl e, evs, inp') \<Rightarrow> Some (Inl e, found_evs @ evs, inp')
         | Some (Inr backup_choice, evs, inp') \<Rightarrow>
             (case py_index backups (backup_choice - 1) of
                Inl e \<Rightarrow> Some (Inl e, found_evs @ evs, inp')
              | Inr backup_name \<Rightarrow>
                  Some (Inr (backup_name, child backups_dir backup_name, backups),
                        found_evs @ evs @ print_status (''Selected: '' @ backup_name) ''info'',
                        inp')))"

text \<open>The lines of \<open>do_restore\<close> from the clone of the repository on, for a URL that is
  not empty.\<close>

definition fetch_backups ::
    "world \<Rightarrow> string \<Rightarrow> stdin
       \<Rightarrow> ((exn + string \<times> path \<times> string list) \<times> event list \<times> stdin) option" where
  "fetch_backups w repo_url inp =
     (let git_dir = temp_dir w @ [''git''];
          (ssh_ok, ssh_evs) = (if startswith repo_url ''git@'' then verify_ssh_connection w repo_url
                               else (True, []));
          evs0 = [Mkdir (temp_dir w)] @ ssh_evs
      in if \<not> ssh_ok then Some (Inl (SystemExit 1), evs0, inp)
         else
           (case clone_repo w repo_url git_dir of
              (cloned, clone_evs) \<Rightarrow>
                (let evs1 = evs0 @ [Print ''  Cloning repository...''] @ clone_evs;
                     backups_dir = git_dir @ [''backups''];
                     backups = list_backups w backups_dir
                 in if \<not> cloned
                    then Some (Inl (SystemExit 1),
                               evs1 @ print_error ''Failed to clone repository'', inp)
                    else if backups = []
                    then Some (Inl (SystemExit 1),
                               evs1 @ print_error ''No backups found in repository'', inp)
                    else (case choose_backup backups_dir backups inp of
                            None \<Rightarrow> None
                          | Some (r, evs2, inp') \<Rightarrow> Some (r, evs1 @ evs2, inp')))))"

definition do_restore_select ::
    "world \<Rightarrow> stdin \<Rightarrow> ((exn + string \<times> path \<times> string list) \<times> event list \<times> stdin) option" where
  "do_restore_select w inp =
     (case check_dependencies w of
        (deps_ok, evs0) \<Rightarrow>
          if \<not> deps_ok then Some (Inl (SystemExit 1), evs0, inp)
          else
            (let os_name = fst (detect_os w);
                 arch = snd (detect_os w);
                 pm = detect_package_manager w os_name;
                 evs1 = print_status (''Operating System: '' @ os_name @ '' ('' @ arch @ '')'') ''info''
                        @ print_status (''Package Manager: '' @ pm) ''info''
             in case read_input ''Repository URL'' [] inp of
                  (repo_url, evs2, inp2) \<Rightarrow>
                    if repo_url = []
                    then Some (Inl (SystemExit 1),
                               evs0 @ evs1 @ evs2 @ print_error ''Repository URL is required'', inp2)
                    else (case fetch_backups w repo_url inp2 of
                            None \<Rightarrow> None
                          | Some (r, evs3, inp3) \<Rightarrow> Some (r, evs0 @ evs1 @ evs2 @ evs3, inp3))))"

section \<open>An example machine\<close>

text \<open>
  A machine to evaluate the program on: the home directory holds \<open>.bashrc\<close> and \<open>.zshrc\<close>,
  the cloned repository holds the backups \<open>bash-host1-20240101\<close> and
  \<open>zsh-host2-20240215\<close> and a file, every command exits with status zero and every
  copy succeeds.
\<close>

definition demo_world :: world where
  "demo_world =
     \<lparr>home = [''home'', ''alice''],
      temp_dir = [''tmp'', ''shellpack_4242''],
      dry_run = False,
      is_file = (\<lambda>p. p \<in> set [[''home'', ''alice'', ''.bashrc''], [''home'', ''alice'', ''.zshrc''],
                                 [''tmp'', ''shellpack_4242'', ''git'', ''backups'', ''README.md'']]),
      is_dir = (\<lambda>p. p \<in> set [[''tmp'', ''shellpack_4242'', ''git'', ''backups''],
                                [''tmp'', ''shellpack_4242'', ''git'', ''backups'', ''zsh-host2-20240215''],
                                [''tmp'', ''shellpack_4242'', ''git'', ''backups'', ''bash-host1-20240101'']]),
      iterdir = (\<lambda>p. if p = [''tmp'', ''shellpack_4242'', ''git'', ''backups'']
                      then [[''tmp'', ''shellpack_4242'', ''git'', ''backups'', ''zsh-host2-20240215''],
                            [''tmp'', ''shellpack_4242'', ''git'', ''backups'', ''README.md''],
                            [''tmp'', ''shellpack_4242'', ''git'', ''backups'', ''bash-host1-20240101'']]
                      else []),
      rglob = (\<lambda>p. []),
      which = (\<lambda>c. c \<in> set [''git'', ''curl'', ''tar'', ''ssh'', ''bash'', ''zsh'', ''apt'']),
      subprocess_run = (\<lambda>cmd timeout. Exited 0 [] []),
      copy2 = (\<lambda>src dest. None),
      tarfile_add = (\<lambda>archive src. None),
      copytree = (\<lambda>src dest. None),
      open_for_writing = (\<lambda>p. None),
      platform_system = ''Linux'',
      platform_machine = ''x86_64'',
      uname_release = Some ''6.1.0-18-amd64'',
      platform_node = Some ''host1'',
      environ = (\<lambda>v. if v = ''SHELL'' then Some ''/bin/bash''
                      else if v = ''USER'' then Some ''alice'' else None),
      clock_now = \<lparr>year = 2024, month = 2, day = 15, hour = 9, minute = 5, second = 30\<rparr>,
      clock_utcnow = \<lparr>year = 2024, month = 2, day = 15, hour = 8, minute = 5, second = 30\<rparr>,
      sha256_hexdigest = hex_bytes\<rparr>"

section \<open>Notions the properties are stated with\<close>

text \<open>The character class \<open>[A-Za-z0-9_-]+\<close> of the specification of the Conda
  environment names.\<close>

definition matches_env_class :: "string \<Rightarrow> bool" where
  "matches_env_class name =
     (name \<noteq> [] \<and>
      list_all (\<lambda>c. in_range CHR ''a'' CHR ''z'' c \<or> in_range CHR ''A'' CHR ''Z'' c
                  \<or> in_range CHR ''0'' CHR ''9'' c \<or> c = CHR ''_'' \<or> c = CHR ''-'') name)"

text \<open>The names \<open>backup_conda\<close> keeps: not \<open>*\<close>, made of alphanumeric characters, hyphens
  and underscores, with an alphanumeric character among them.\<close>

definition kept_env_name :: "string \<Rightarrow> bool" where
  "kept_env_name name =
     (name \<noteq> ''*''
      \<and> list_all (\<lambda>c. isalnum_char c \<or> c = CHR ''-'' \<or> c = CHR ''_'') name
      \<and> list_ex isalnum_char name)"

text \<open>The status words in a list of events, the names of the routines invoked, and
  the events a dry run may produce.\<close>

fun statuses :: "event list \<Rightarrow> string list" where
  "statuses [] = []"
| "statuses (Status message status # evs) = status # statuses evs"
| "statuses (ev # evs) = statuses evs"

fun invoked :: "event list \<Rightarrow> string list" where
  "invoked [] = []"
| "invoked (Invoke routine # evs) = routine # invoked evs"
| "invoked (ev # evs) = invoked evs"

fun dry_event :: "event \<Rightarrow> bool" where
  "dry_event (Mkdir p) = True"
| "dry_event (Status message status) = True"
| "dry_event (Log level message) = True"
| "dry_event ev = False"

text \<open>Whether a list of events writes a text file at a path, and whether a command
  of the package manager exits with status zero.\<close>

fun writes_text :: "path \<Rightarrow> event list \<Rightarrow> bool" where
  "writes_text file [] = False"
| "writes_text file (WriteText p content # evs) = (p = file \<or> writes_text file evs)"
| "writes_text file (ev # evs) = writes_text file evs"

definition exits_zero :: "world \<Rightarrow> string list \<Rightarrow> bool" where
  "exits_zero w cmd = (case subprocess_run w cmd 0 of Exited rc out err \<Rightarrow> rc = 0 | _ \<Rightarrow> False)"

text \<open>The names \<open>backup_conda\<close> takes from the lines of \<open>conda env list\<close>: the first word
  of each line that is not blank and not a comment, when it is a name to keep.\<close>

definition env_lines :: "string list \<Rightarrow> string list" where
  "env_lines ls =
     filter kept_env_name
       (map (\<lambda>l. takeWhile (\<lambda>c. \<not> isspace c) (strip l))
          (filter (\<lambda>l. strip l \<noteq> [] \<and> \<not> startswith (strip l) ''#'') ls))"

text \<open>The dot files of a shell that are in the home directory.\<close>

definition dotfiles_found :: "world \<Rightarrow> string list \<Rightarrow> bool" where
  "dotfiles_found w files = list_ex (\<lambda>f. is_file w (home w @ [f])) files"

text \<open>The commands a list of events runs, in their order.\<close>

fun commands :: "event list \<Rightarrow> string list list" where
  "commands [] = []"
| "commands (Run cmd # evs) = cmd # commands evs"
| "commands (ev # evs) = commands evs"

text \<open>
  A machine on which the clone fails and \<open>git init\<close>, which creates its repository in the
  working directory of the process, succeeds. The directory \<open>git\<close> under the temporary
  directory is then no repository, and Git refuses the commands that name it with \<open>-C\<close>.
\<close>

definition no_remote_world :: world where
  "no_remote_world =
     demo_world\<lparr>subprocess_run :=
       (\<lambda>cmd timeout. if cmd = [''git'', ''init'']
                       then Exited 0 ''Initialized empty Git repository'' []
                       else Exited 128 [] ''fatal: not a git repository'')\<rparr>"

definition demo_selections :: selections where
  "demo_selections =
     \<lparr>sel_os_name = ''linux'', sel_arch = ''amd64'', sel_pm = ''apt'',
      sel_repo_url = ''https://example.com/alice/backups.git'',
      sel_backup_name = ''bash-host1-20240215'', sel_is_shareable = True,
      sel_include_ssh = False, sel_include_git_cfg = False, sel_include_history = False,
      sel_include_cloud_creds = False, sel_include_conda = False,
      sel_shells_to_backup = [''bash'']\<rparr>"


section \<open>Properties of name sanitization\<close>

lemma digit_char_decimal: "d < 10 \<Longrightarrow> in_range CHR ''0'' CHR ''9'' (digit_char d)"
proof -
  assume "d < 10"
  then have "d \<in> {0,1,2,3,4,5,6,7,8,9}" by auto
  then show ?thesis by (auto simp: digit_char_def in_range_def)
qed

lemma str_of_nat_decimal: "list_all (in_range CHR ''0'' CHR ''9'') (str_of_nat n)"
proof (induction n rule: str_of_nat.induct)
  case (1 n)
  show ?case
  proof (cases "n < 10")
    case True
    then show ?thesis by (subst str_of_nat.simps) (simp add: digit_char_decimal)
  next
    case False
    with 1 show ?thesis by (subst str_of_nat.simps) (simp add: digit_char_decimal)
  qed
qed

lemma str_of_nat_length: "n < 10 ^ k \<Longrightarrow> 0 < k \<Longrightarrow> length (str_of_nat n) \<le> k"
proof (induction n arbitrary: k rule: str_of_nat.induct)
  case (1 n)
  show ?case
  proof (cases "n < 10")
    case True
    then show ?thesis using 1(3) by (subst str_of_nat.simps) simp
  next
    case False
    then obtain j where k: "k = Suc j" using 1(3) by (cases k) auto
    have j: "0 < j" using False 1(2) k by (cases j) auto
    have "n div 10 < 10 ^ j" using 1(2) k by (simp add: less_mult_imp_div_less mult.commute)
    then have "length (str_of_nat (n div 10)) \<le> j" using 1(1)[OF False _ j] by blast
    then show ?thesis using False k by (subst str_of_nat.simps) simp
  qed
qed

lemma str_of_nat_nonempty: "str_of_nat n \<noteq> []"
  by (subst str_of_nat.simps) simp

lemma zero_pad_decimal: "list_all (in_range CHR ''0'' CHR ''9'') (zero_pad w n)"
  using str_of_nat_decimal[of n] by (auto simp: zero_pad_def list_all_iff in_range_def)

lemma zero_pad_length: "n < 10 ^ w \<Longrightarrow> 0 < w \<Longrightarrow> length (zero_pad w n) = w"
  using str_of_nat_length[of n w] by (simp add: zero_pad_def)

lemma decimal_name_char: "in_range CHR ''0'' CHR ''9'' c \<Longrightarrow> name_char c"
  by (simp add: name_char_def)

lemma decimal_not_dot: "in_range CHR ''0'' CHR ''9'' c \<Longrightarrow> c \<noteq> CHR ''.''"
  by (auto simp: in_range_def)

lemma strftime_stamp_chars:
  "list_all (\<lambda>c. in_range CHR ''0'' CHR ''9'' c \<or> c = CHR ''-'') (strftime_stamp t)"
proof -
  have "list_all (\<lambda>c. in_range CHR ''0'' CHR ''9'' c \<or> c = CHR ''-'') (zero_pad w n)" for w n
    using zero_pad_decimal[of w n] by (auto simp: list_all_iff)
  then show ?thesis by (simp add: strftime_stamp_def)
qed

lemma strftime_stamp_length: "valid_datetime t \<Longrightarrow> length (strftime_stamp t) = 15"
  by (simp add: strftime_stamp_def valid_datetime_def zero_pad_length)

lemma sub_dot_runs_Nil_iff: "sub_dot_runs s = [] \<longleftrightarrow> s = []"
  by (cases s) auto

lemma sub_dot_runs_hd: "s \<noteq> [] \<Longrightarrow> hd (sub_dot_runs s) = hd s"
  by (cases s) auto

lemma sub_dot_runs_set: "set (sub_dot_runs s) \<subseteq> set s"
proof (induction s rule: sub_dot_runs.induct)
  case 1
  show ?case by simp
next
  case (2 c cs)
  then show ?case using set_dropWhileD[of _ "\<lambda>d. d = CHR ''.''" cs] by auto
qed

lemma sub_dot_runs_length: "length (sub_dot_runs s) \<le> length s"
proof (induction s rule: sub_dot_runs.induct)
  case 1
  show ?case by simp
next
  case (2 c cs)
  then show ?case using length_dropWhile_le[of "\<lambda>d. d = CHR ''.''" cs] by auto
qed

lemma no_double_dot_Cons:
  "no_double_dot (c # s) \<longleftrightarrow> (c = CHR ''.'' \<longrightarrow> s = [] \<or> hd s \<noteq> CHR ''.'') \<and> no_double_dot s"
  by (cases s) auto

lemma dropWhile_dot_hd: "dropWhile (\<lambda>d. d = CHR ''.'') cs = [] \<or> hd (dropWhile (\<lambda>d. d = CHR ''.'') cs) \<noteq> CHR ''.''"
  using hd_dropWhile[of "\<lambda>d. d = CHR ''.''" cs] by blast

lemma sub_dot_runs_no_double_dot: "no_double_dot (sub_dot_runs s)"
proof (induction s rule: sub_dot_runs.induct)
  case 1
  show ?case by simp
next
  case (2 c cs)
  show ?case
  proof (cases "c = CHR ''.'' \<and> cs \<noteq> [] \<and> hd cs = CHR ''.''")
    case True
    let ?r = "dropWhile (\<lambda>d. d = CHR ''.'') cs"
    have "no_double_dot (sub_dot_runs ?r)" using 2(1) True by simp
    moreover have "sub_dot_runs ?r = [] \<or> hd (sub_dot_runs ?r) \<noteq> CHR ''.''"
    proof (cases "?r = []")
      case True
      then have "sub_dot_runs ?r = []" by (simp only: sub_dot_runs.simps)
      then show ?thesis by blast
    next
      case False
      then have "hd ?r \<noteq> CHR ''.''" using hd_dropWhile[of "\<lambda>d. d = CHR ''.''" cs] by blast
      then show ?thesis using False by (simp add: sub_dot_runs_hd)
    qed
    ultimately show ?thesis using True by (simp add: no_double_dot_Cons)
  next
    case False
    have "no_double_dot (sub_dot_runs cs)" using 2(2) False by simp
    moreover have "c = CHR ''.'' \<longrightarrow> sub_dot_runs cs = [] \<or> hd (sub_dot_runs cs) \<noteq> CHR ''.''"
      using False by (auto simp: sub_dot_runs_Nil_iff sub_dot_runs_hd)
    moreover have "sub_dot_runs (c # cs) = c # sub_dot_runs cs" using False by auto
    ultimately show ?thesis by (simp only: no_double_dot_Cons)
  qed
qed

lemma no_double_dot_take: "no_double_dot s \<Longrightarrow> no_double_dot (take n s)"
proof (induction s arbitrary: n)
  case Nil
  show ?case by simp
next
  case (Cons c s)
  show ?case
  proof (cases n)
    case 0
    then show ?thesis by simp
  next
    case (Suc m)
    have "no_double_dot (take m s)" using Cons by (simp add: no_double_dot_Cons)
    moreover have "c = CHR ''.'' \<longrightarrow> take m s = [] \<or> hd (take m s) \<noteq> CHR ''.''"
      using Cons.prems by (cases m; cases s) (auto simp: no_double_dot_Cons)
    ultimately show ?thesis using Suc by (simp add: no_double_dot_Cons)
  qed
qed

lemma no_double_dot_no_dots: "CHR ''.'' \<notin> set s \<Longrightarrow> no_double_dot s"
  by (induction s) (auto simp: no_double_dot_Cons)

text \<open>
  C6. For every input string, \<open>sanitize_name\<close> returns a string of characters of the
  class \<open>[A-Za-z0-9._-]\<close> only, with no two adjacent dots, of length at most 100 and
  not empty; when the input is empty or holds no character of the class, the result
  is the fallback name \<open>backup-\<close> followed by the time stamp.
\<close>

theorem sanitize_name_safe:
  assumes "valid_datetime now"
  shows "list_all name_char (sanitize_name now name)
    \<and> no_double_dot (sanitize_name now name)
    \<and> length (sanitize_name now name) \<le> 100
    \<and> sanitize_name now name \<noteq> []
    \<and> (list_all (\<lambda>c. \<not> name_char c) name \<longrightarrow>
         sanitize_name now name = ''backup-'' @ strftime_stamp now)"
proof -
  let ?f = "filter name_char name"
  let ?c = "sub_dot_runs ?f"
  let ?t = "if length ?c > 100 then take 100 ?c else ?c"
  have san: "sanitize_name now name = (if ?t = [] then ''backup-'' @ strftime_stamp now else ?t)"
    by (simp add: sanitize_name_def Let_def)
  have t_chars: "list_all name_char ?t"
    using sub_dot_runs_set[of ?f] by (auto simp: list_all_iff dest: in_set_takeD)
  have t_dots: "no_double_dot ?t"
    by (simp add: sub_dot_runs_no_double_dot no_double_dot_take)
  have t_len: "length ?t \<le> 100" by simp
  have fb_chars: "list_all name_char (''backup-'' @ strftime_stamp now)"
    using strftime_stamp_chars[of now]
    by (auto simp: list_all_iff name_char_def in_range_def)
  have "CHR ''.'' \<notin> set (''backup-'' @ strftime_stamp now)"
    using strftime_stamp_chars[of now] by (auto simp: list_all_iff dest: decimal_not_dot)
  then have fb_dots: "no_double_dot (''backup-'' @ strftime_stamp now)"
    by (rule no_double_dot_no_dots)
  have fb_len: "length (''backup-'' @ strftime_stamp now) \<le> 100"
    using strftime_stamp_length[OF assms] by simp
  have empty: "list_all (\<lambda>c. \<not> name_char c) name \<Longrightarrow> ?t = []"
    by (simp add: list_all_iff filter_empty_conv)
  show ?thesis
  proof (cases "?t = []")
    case True
    then have "sanitize_name now name = ''backup-'' @ strftime_stamp now"
      using san by simp
    then show ?thesis using fb_chars fb_dots fb_len by simp
  next
    case False
    then have eq: "sanitize_name now name = ?t" using san by simp
    have "\<not> list_all (\<lambda>c. \<not> name_char c) name" using False empty by blast
    then show ?thesis using False t_chars t_dots t_len unfolding eq by blast
  qed
qed

theorem sanitize_name_safe_witness:
  "valid_datetime \<lparr>year = 2024, month = 2, day = 15, hour = 9, minute = 5, second = 30\<rparr>
   \<and> list_all (\<lambda>c. \<not> name_char c) ''/// ''
   \<and> sanitize_name \<lparr>year = 2024, month = 2, day = 15, hour = 9, minute = 5, second = 30\<rparr> ''/// ''
       = ''backup-20240215-090530''
   \<and> list_all name_char ''backup-20240215-090530''
   \<and> no_double_dot ''backup-20240215-090530''
   \<and> sanitize_name \<lparr>year = 2024, month = 2, day = 15, hour = 9, minute = 5, second = 30\<rparr>
         ''my..backup/../x  ...y'' = ''my.backup.x.y''"
  using sanitize_name_safe
    [of "\<lparr>year = 2024, month = 2, day = 15, hour = 9, minute = 5, second = 30\<rparr>" "''/// ''"]
  by (simp add: valid_datetime_def sanitize_name_def name_char_def in_range_def
      strftime_stamp_def zero_pad_def digit_char_def str_of_nat.simps)

section \<open>Properties of the manifest checksum\<close>

lemma hasher_update_append: "hasher_update hasher entry = hasher @ contribution entry"
  by (auto simp: hasher_update_def contribution_def split: prod.splits node.splits)

lemma foldl_hasher_update:
  "foldl hasher_update hasher es = hasher @ concat (map contribution es)"
proof (induction es arbitrary: hasher)
  case Nil
  show ?case by simp
next
  case (Cons e es)
  have "foldl hasher_update hasher (e # es) = foldl hasher_update (hasher_update hasher e) es"
    by simp
  also have "\<dots> = hasher_update hasher e @ concat (map contribution es)"
    by (rule Cons.IH)
  also have "\<dots> = hasher @ concat (map contribution (e # es))"
    by (simp add: hasher_update_append[of hasher e])
  finally show ?case .
qed

lemma hashed_bytes_concat: "hashed_bytes tree = concat (map contribution (sort_key fst tree))"
  by (simp add: hashed_bytes_def foldl_hasher_update)

lemma sort_key_permutation:
  assumes "distinct (map fst tree)" and "mset tree' = mset tree"
  shows "sort_key fst tree' = sort_key fst tree"
proof (rule sort_key_eq_sort_key)
  show "mset tree' = mset tree" by (rule assms(2))
  have "inj_on fst (set tree)" using assms(1) by (simp add: distinct_map)
  then show "inj_on fst (set tree')" using mset_eq_setD[OF assms(2)] by simp
qed

lemma contribution_manifest:
  "path_name (fst entry) = ''manifest.json'' \<Longrightarrow> contribution entry = []"
  by (auto simp: hasher_update_def contribution_def split: prod.splits)

lemma concat_filter_contribution:
  "concat (map contribution (filter not_manifest es)) = concat (map contribution es)"
  by (induction es) (simp_all add: contribution_manifest not_manifest_def)

lemma hashed_bytes_filter:
  "hashed_bytes (filter not_manifest tree) = hashed_bytes tree"
  by (simp only: hashed_bytes_concat filter_sort[symmetric] concat_filter_contribution)

lemma insort_key_map:
  assumes "\<And>y. f (g y) = f y"
  shows "insort_key f (g x) (map g xs) = map g (insort_key f x xs)"
  using assms by (induction xs) simp_all

lemma sort_key_map:
  assumes "\<And>y. f (g y) = f y"
  shows "sort_key f (map g xs) = map g (sort_key f xs)"
  using assms by (induction xs) (simp_all add: insort_key_map)

lemma insort_key_split:
  "\<exists>as bs. xs = as @ bs \<and> insort_key f x xs = as @ x # bs"
proof (induction xs)
  case Nil
  show ?case by simp
next
  case (Cons y ys)
  show ?case
  proof (cases "f x \<le> f y")
    case True
    then have "y # ys = [] @ (y # ys) \<and> insort_key f x (y # ys) = [] @ x # (y # ys)" by simp
    then show ?thesis by blast
  next
    case False
    from Cons obtain as bs where "ys = as @ bs" "insort_key f x ys = as @ x # bs" by blast
    then have "y # ys = (y # as) @ bs \<and> insort_key f x (y # ys) = (y # as) @ x # bs"
      using False by simp
    then show ?thesis by blast
  qed
qed

lemma hashed_bytes_add:
  assumes "path_name p \<noteq> ''manifest.json''"
  shows "hashed_bytes ((p, File content) # tree) = hashed_bytes tree \<longleftrightarrow> content = []"
proof -
  obtain as bs where s: "sort_key fst tree = as @ bs"
    and i: "insort_key fst (p, File content) (sort_key fst tree) = as @ (p, File content) # bs"
    using insort_key_split[of "sort_key fst tree" fst "(p, File content)"] by blast
  have c: "contribution (p, File content) = content"
    using assms by (simp add: contribution_def hasher_update_def)
  have "hashed_bytes ((p, File content) # tree)
      = concat (map contribution as) @ content @ concat (map contribution bs)"
    by (simp add: hashed_bytes_concat i c)
  moreover have "hashed_bytes tree = concat (map contribution as) @ concat (map contribution bs)"
    by (simp add: hashed_bytes_concat s)
  ultimately show ?thesis by simp
qed

lemma hashed_bytes_modify:
  assumes "distinct (map fst tree)" and "(p, File content) \<in> set tree"
    and "path_name p \<noteq> ''manifest.json''"
  shows "hashed_bytes (write_file p content' tree) = hashed_bytes tree
     \<longleftrightarrow> content' = content"
proof -
  let ?g = "\<lambda>e. if fst e = p then (p, File content') else e"
  let ?s = "sort_key fst tree"
  have key: "fst (?g y) = fst y" for y :: "path \<times> node" by simp
  have wf: "write_file p content' tree = map ?g tree" by (simp add: write_file_def)
  have sg: "sort_key fst (map ?g tree) = map ?g ?s"
    by (rule sort_key_map) (rule key)
  have "(p, File content) \<in> set ?s" using assms(2) by simp
  then obtain as bs where s: "?s = as @ (p, File content) # bs"
    by (meson split_list)
  have d: "distinct (map fst ?s)" using assms(1) by (simp add: distinct_map)
  have "p \<notin> fst ` set as" "p \<notin> fst ` set bs"
    using d unfolding s by auto
  then have "\<forall>e \<in> set as. fst e \<noteq> p" "\<forall>e \<in> set bs. fst e \<noteq> p"
    by (force+)
  then have "map ?g as = as" "map ?g bs = bs"
    by (simp_all add: map_idI)
  then have m: "map ?g ?s = as @ (p, File content') # bs" unfolding s by simp
  have c: "contribution (p, File x) = x" for x
    using assms(3) by (simp add: contribution_def hasher_update_def)
  have "hashed_bytes (write_file p content' tree)
      = concat (map contribution as) @ content' @ concat (map contribution bs)"
    by (simp add: hashed_bytes_concat wf sg m c)
  moreover have "hashed_bytes tree
      = concat (map contribution as) @ content @ concat (map contribution bs)"
    by (simp add: hashed_bytes_concat s c)
  ultimately show ?thesis by simp
qed


text \<open>
  C1, as amended. For a tree whose paths are distinct, the checksum is the digest of
  \<open>hashed_bytes\<close>, the contents of the readable regular files not named
  \<open>manifest.json\<close>, concatenated in the order of the sorted paths. It is the same for
  every order in which the tree is enumerated, so computing it twice over an
  unchanged tree gives the same digest. Giving such a file a different content
  changes the bytes that are hashed, and adding such a file changes them exactly
  when the new file is not empty.
\<close>

theorem checksum_determined_by_contents:
  assumes "distinct (map fst tree)"
  shows "calculate_checksum hexdigest tree = hexdigest (hashed_bytes tree)
    \<and> (mset tree' = mset tree \<longrightarrow>
         calculate_checksum hexdigest tree' = calculate_checksum hexdigest tree)
    \<and> ((p, File content) \<in> set tree \<and> path_name p \<noteq> ''manifest.json'' \<and> content' \<noteq> content \<longrightarrow>
         hashed_bytes (write_file p content' tree) \<noteq> hashed_bytes tree)
    \<and> (q \<notin> fst ` set tree \<and> path_name q \<noteq> ''manifest.json'' \<longrightarrow>
         (hashed_bytes ((q, File added) # tree) = hashed_bytes tree \<longleftrightarrow> added = []))"
proof -
  have perm: "hashed_bytes tree' = hashed_bytes tree" if "mset tree' = mset tree"
    using sort_key_permutation[OF assms that] by (simp add: hashed_bytes_def)
  have modify: "hashed_bytes (write_file p content' tree) \<noteq> hashed_bytes tree"
    if "(p, File content) \<in> set tree" "path_name p \<noteq> ''manifest.json''" "content' \<noteq> content"
    using hashed_bytes_modify[OF assms that(1,2), of content'] that(3) by blast
  have add: "hashed_bytes ((q, File added) # tree) = hashed_bytes tree \<longleftrightarrow> added = []"
    if "path_name q \<noteq> ''manifest.json''"
    using that by (rule hashed_bytes_add)
  have "calculate_checksum hexdigest tree' = calculate_checksum hexdigest tree"
    if "mset tree' = mset tree"
    using perm[OF that] by (simp only: calculate_checksum_def)
  moreover have "calculate_checksum hexdigest tree = hexdigest (hashed_bytes tree)"
    by (simp only: calculate_checksum_def)
  ultimately show ?thesis using modify add by blast
qed

theorem checksum_determined_by_contents_witness:
  "distinct (map fst [([''shells'', ''bash'', ''.bashrc''], File [0x61, 0x62]), ([''packages''], Other),
       ([''config'', ''starship.toml''], File [0x63])])
   \<and> mset [([''config'', ''starship.toml''], File [0x63]), ([''packages''], Other),
       ([''shells'', ''bash'', ''.bashrc''], File [0x61, 0x62 :: 8 word])]
     = mset [([''shells'', ''bash'', ''.bashrc''], File [0x61, 0x62]), ([''packages''], Other),
       ([''config'', ''starship.toml''], File [0x63])]
   \<and> calculate_checksum hex_bytes [([''config'', ''starship.toml''], File [0x63]), ([''packages''], Other),
       ([''shells'', ''bash'', ''.bashrc''], File [0x61, 0x62])]
     = calculate_checksum hex_bytes [([''shells'', ''bash'', ''.bashrc''], File [0x61, 0x62]),
       ([''packages''], Other), ([''config'', ''starship.toml''], File [0x63])]
   \<and> calculate_checksum hex_bytes [([''shells'', ''bash'', ''.bashrc''], File [0x61, 0x62]),
       ([''packages''], Other), ([''config'', ''starship.toml''], File [0x63])] = ''636162''
   \<and> hashed_bytes (write_file [''config'', ''starship.toml''] [0x64]
        [([''shells'', ''bash'', ''.bashrc''], File [0x61, 0x62]), ([''packages''], Other),
         ([''config'', ''starship.toml''], File [0x63])]) = [0x64, 0x61, 0x62]
   \<and> hashed_bytes (([''history'', ''.zsh_history''], File [0x7A])
        # [([''shells'', ''bash'', ''.bashrc''], File [0x61, 0x62]), ([''packages''], Other),
           ([''config'', ''starship.toml''], File [0x63])]) = [0x63, 0x7A, 0x61, 0x62]"
  using checksum_determined_by_contents
    [of "[([''shells'', ''bash'', ''.bashrc''], File [0x61, 0x62]), ([''packages''], Other),
          ([''config'', ''starship.toml''], File [0x63])]"
        hex_bytes
        "[([''config'', ''starship.toml''], File [0x63]), ([''packages''], Other),
          ([''shells'', ''bash'', ''.bashrc''], File [0x61, 0x62])]"
        "[''config'', ''starship.toml'']" "[0x63]" "[0x64]"
        "[''history'', ''.zsh_history'']" "[0x7A]"]
  by (simp add: calculate_checksum_def hashed_bytes_def hasher_update_def path_name_def
      write_file_def hex_bytes_def hex_byte_def)

text \<open>
  C1 as stated fails: adding an empty file to the tree leaves the checksum as it was,
  whatever the digest function.
\<close>

theorem checksum_unchanged_by_empty_file:
  "calculate_checksum hex_bytes
      (([''config'', ''empty.conf''], File []) # [([''shells'', ''bash'', ''.bashrc''], File [0x61, 0x62])])
   = calculate_checksum hex_bytes [([''shells'', ''bash'', ''.bashrc''], File [0x61, 0x62])]"
  by (simp add: calculate_checksum_def hashed_bytes_def hasher_update_def path_name_def)

text \<open>
  C9. An entry whose base name is \<open>manifest.json\<close> adds nothing to the hasher's state,
  at any depth; so two trees whose entries not named \<open>manifest.json\<close> are the same
  have the same checksum.
\<close>

theorem checksum_ignores_manifest_files:
  assumes "distinct (map fst tree)"
    and "mset (filter not_manifest tree') = mset (filter not_manifest tree)"
  shows "calculate_checksum hexdigest tree' = calculate_checksum hexdigest tree
    \<and> (path_name p = ''manifest.json'' \<longrightarrow> hasher_update hasher (p, nd) = hasher)"
proof -
  have "distinct (map fst (filter not_manifest tree))"
    using assms(1) by (rule distinct_map_filter)
  then have "sort_key fst (filter not_manifest tree') = sort_key fst (filter not_manifest tree)"
    using assms(2) by (rule sort_key_permutation)
  then have "hashed_bytes (filter not_manifest tree') = hashed_bytes (filter not_manifest tree)"
    by (simp add: hashed_bytes_def)
  then have "hashed_bytes tree' = hashed_bytes tree"
    by (simp only: hashed_bytes_filter)
  then show ?thesis by (simp add: calculate_checksum_def hasher_update_def)
qed

theorem checksum_ignores_manifest_files_witness:
  "distinct (map fst [([''manifest.json''], File [0x01]), ([''shells'', ''manifest.json''], File [0x02]),
       ([''shells'', ''.zshrc''], File [0x7A :: 8 word])])
   \<and> mset (filter not_manifest [([''shells'', ''.zshrc''], File [0x7A]),
       ([''shells'', ''manifest.json''], File [0x09, 0x09])])
     = mset (filter not_manifest [([''manifest.json''], File [0x01]),
       ([''shells'', ''manifest.json''], File [0x02]), ([''shells'', ''.zshrc''], File [0x7A :: 8 word])])
   \<and> calculate_checksum hex_bytes [([''shells'', ''.zshrc''], File [0x7A]),
       ([''shells'', ''manifest.json''], File [0x09, 0x09])]
     = calculate_checksum hex_bytes [([''manifest.json''], File [0x01]),
       ([''shells'', ''manifest.json''], File [0x02]), ([''shells'', ''.zshrc''], File [0x7A])]
   \<and> path_name [''shells'', ''manifest.json''] = ''manifest.json''
   \<and> hasher_update [0x7A] ([''shells'', ''manifest.json''], File [0x02]) = [0x7A]"
  using checksum_ignores_manifest_files
    [of "[([''manifest.json''], File [0x01]), ([''shells'', ''manifest.json''], File [0x02]),
          ([''shells'', ''.zshrc''], File [0x7A])]"
        "[([''shells'', ''.zshrc''], File [0x7A]), ([''shells'', ''manifest.json''], File [0x09, 0x09])]"
        hex_bytes "[''shells'', ''manifest.json'']" "[0x7A]" "File [0x02]"]
  by (simp add: not_manifest_def path_name_def)

section \<open>Properties of read_choice\<close>

lemma read_choice_loop_step:
  "read_choice_loop prompt n out inp =
     (case answer n (shd inp) of
        Some r \<Rightarrow> Some (r, out @ [Prompt (''  '' @ prompt @ '' [1]: '')]
                      @ (if shd inp = EOF \<or> shd inp = Interrupt then [Print []] else []), stl inp)
      | None \<Rightarrow> read_choice_loop prompt n
          (out @ [Prompt (''  '' @ prompt @ '' [1]: '')]
             @ print_error (''Invalid choice. Please enter 1-'' @ str_of_nat n)) (stl inp))"
  by (subst read_choice_loop.simps)
     (simp add: answer_def Let_def split: input_event.splits option.splits)

lemma answer_range: "answer n ev = Some (Inr r) \<Longrightarrow> 0 < n \<Longrightarrow> 1 \<le> r \<and> r \<le> int n"
  by (auto simp: answer_def Let_def split: input_event.splits option.splits if_splits)

lemma answer_rejects:
  "answer n (Line s) = None \<longleftrightarrow>
     strip s \<noteq> [] \<and> (\<not> isdigit (strip s) \<or> (\<exists>v. py_int (strip s) = Some v \<and> (v < 1 \<or> int n < v)))"
  by (auto simp: answer_def Let_def split: option.splits)

lemma read_choice_loop_range:
  assumes "read_choice_loop prompt n out inp = Some res"
  shows "0 < n \<longrightarrow> (\<forall>r. fst res = Inr r \<longrightarrow> 1 \<le> r \<and> r \<le> int n)"
proof (rule read_choice_loop.raw_induct[where P = "\<lambda>prompt n out inp res.
         0 < n \<longrightarrow> (\<forall>r. fst res = Inr r \<longrightarrow> 1 \<le> r \<and> r \<le> int n)", OF _ assms], goal_cases)
  case (1 f prompt n out inp res)
  show ?case
  proof (cases "answer n (shd inp)")
    case None
    then have "f prompt n (out @ [Prompt (''  '' @ prompt @ '' [1]: '')]
             @ print_error (''Invalid choice. Please enter 1-'' @ str_of_nat n)) (stl inp) = Some res"
      using 1(2) by (auto simp: answer_def Let_def split: input_event.splits option.splits if_splits)
    then show ?thesis by (rule 1(1))
  next
    case (Some a)
    then have "fst res = a"
      using 1(2) by (auto simp: answer_def Let_def split: input_event.splits option.splits if_splits)
    then show ?thesis using Some answer_range[of n "shd inp"] by auto
  qed
qed

lemma read_choice_loop_returns:
  "answer n (inp !! k) \<noteq> None \<Longrightarrow> \<forall>j<k. answer n (inp !! j) = None \<Longrightarrow>
     \<exists>out'. read_choice_loop prompt n out inp = Some (the (answer n (inp !! k)), out', sdrop (Suc k) inp)"
proof (induction k arbitrary: out inp)
  case 0
  then show ?case by (subst read_choice_loop_step) auto
next
  case (Suc k)
  have a0: "answer n (shd inp) = None" using Suc.prems(2) by (auto dest: spec[of _ 0])
  have "answer n (stl inp !! k) \<noteq> None" using Suc.prems(1) by simp
  moreover have "\<forall>j<k. answer n (stl inp !! j) = None"
  proof (intro allI impI)
    fix j assume "j < k"
    then have "Suc j < Suc k" by simp
    then have "answer n (inp !! Suc j) = None" using Suc.prems(2) by blast
    then show "answer n (stl inp !! j) = None" by simp
  qed
  ultimately obtain out' where
    "read_choice_loop prompt n (out @ [Prompt (''  '' @ prompt @ '' [1]: '')]
             @ print_error (''Invalid choice. Please enter 1-'' @ str_of_nat n)) (stl inp)
       = Some (the (answer n (stl inp !! k)), out', sdrop (Suc k) (stl inp))"
    using Suc.IH by blast
  then show ?case using a0 by (subst read_choice_loop_step) simp
qed

lemma read_choice_loop_never_returns:
  assumes "read_choice_loop prompt n out inp = Some res"
  shows "\<exists>k. answer n (inp !! k) \<noteq> None"
proof (rule read_choice_loop.raw_induct[where P = "\<lambda>prompt n out inp res.
         \<exists>k. answer n (inp !! k) \<noteq> None", OF _ assms], goal_cases)
  case (1 f prompt n out inp res)
  show ?case
  proof (cases "answer n (shd inp)")
    case None
    then have "f prompt n (out @ [Prompt (''  '' @ prompt @ '' [1]: '')]
             @ print_error (''Invalid choice. Please enter 1-'' @ str_of_nat n)) (stl inp) = Some res"
      using 1(2) by (auto simp: answer_def Let_def split: input_event.splits option.splits if_splits)
    then obtain k where "answer n (stl inp !! k) \<noteq> None" using 1(1) by blast
    then have "answer n (inp !! Suc k) \<noteq> None" by simp
    then show ?thesis by blast
  next
    case (Some a)
    then have "answer n (inp !! 0) \<noteq> None" by simp
    then show ?thesis by blast
  qed
qed

lemma py_index_in_range:
  "1 \<le> r \<Longrightarrow> r \<le> int (length xs) \<Longrightarrow> py_index xs (r - 1) = Inr (xs ! nat (r - 1))"
  by (simp add: py_index_def)

lemma read_choice_range:
  assumes "options \<noteq> []" and "read_choice prompt options inp = Some (Inr r, out, rest)"
  shows "1 \<le> r \<and> r \<le> int (length options)"
proof -
  have "0 < length options" using assms(1) by simp
  then show ?thesis
    using read_choice_loop_range[OF assms(2)[unfolded read_choice_def]] by simp
qed

text \<open>
  C10. For a list of options that is not empty, a choice that \<open>read_choice\<close> returns is
  between 1 and the number of options, so that the list indexed with the choice
  minus one is in bounds. On the end of the file, an interrupt or an empty line it
  returns 1. It returns as soon as an input event is not rejected: the result is
  that of the first such event.
\<close>

theorem read_choice_in_bounds:
  assumes "options \<noteq> []"
  shows "(read_choice prompt options inp = Some (Inr r, out, rest) \<longrightarrow>
            1 \<le> r \<and> r \<le> int (length options)
            \<and> py_index options (r - 1) = Inr (options ! nat (r - 1)))
    \<and> (shd inp = EOF \<or> shd inp = Interrupt \<or> (\<exists>s. shd inp = Line s \<and> strip s = []) \<longrightarrow>
          (\<exists>out'. read_choice prompt options inp = Some (Inr 1, out', stl inp)))
    \<and> (answer (length options) (inp !! k) \<noteq> None
          \<and> (\<forall>j<k. answer (length options) (inp !! j) = None) \<longrightarrow>
          (\<exists>out'. read_choice prompt options inp
                    = Some (the (answer (length options) (inp !! k)), out', sdrop (Suc k) inp)))"
proof (intro conjI impI)
  assume r: "read_choice prompt options inp = Some (Inr r, out, rest)"
  have "1 \<le> r \<and> r \<le> int (length options)"
    using read_choice_range[OF assms r] .
  then show "1 \<le> r" "r \<le> int (length options)"
    "py_index options (r - 1) = Inr (options ! nat (r - 1))"
    by (simp_all add: py_index_in_range)
next
  assume "shd inp = EOF \<or> shd inp = Interrupt \<or> (\<exists>s. shd inp = Line s \<and> strip s = [])"
  then have "answer (length options) (shd inp) = Some (Inr 1)"
    by (auto simp: answer_def)
  then show "\<exists>out'. read_choice prompt options inp = Some (Inr 1, out', stl inp)"
    unfolding read_choice_def by (subst read_choice_loop_step) simp
next
  assume "answer (length options) (inp !! k) \<noteq> None
          \<and> (\<forall>j<k. answer (length options) (inp !! j) = None)"
  then show "\<exists>out'. read_choice prompt options inp
                    = Some (the (answer (length options) (inp !! k)), out', sdrop (Suc k) inp)"
    unfolding read_choice_def using read_choice_loop_returns by blast
qed

lemmas ev_simps = read_choice_def read_choice_loop.simps strip_def isspace_def in_range_def
  isdigit_def isdigit_char_def isdecimal_char_def py_int_def digit_value_def option_lines_def
  print_error_def str_of_nat.simps digit_char_def Let_def py_index_def answer_def

theorem read_choice_in_bounds_witness:
  "[''bash-host1-20240101'', ''zsh-host2-20240215''] \<noteq> []
   \<and> read_choice ''Choose backup to restore'' [''bash-host1-20240101'', ''zsh-host2-20240215'']
        (Line ''7'' ## Line ''two'' ## Line '' 2 '' ## sconst EOF)
      = Some (Inr 2,
          [Print [], Print ''      [1] bash-host1-20240101'', Print ''      [2] zsh-host2-20240215'',
           Print [],
           Prompt ''  Choose backup to restore [1]: '',
           ErrorMsg ''Invalid choice. Please enter 1-2'', Log ''ERROR'' ''Invalid choice. Please enter 1-2'',
           Prompt ''  Choose backup to restore [1]: '',
           ErrorMsg ''Invalid choice. Please enter 1-2'', Log ''ERROR'' ''Invalid choice. Please enter 1-2'',
           Prompt ''  Choose backup to restore [1]: ''],
          sconst EOF)
   \<and> py_index [''bash-host1-20240101'', ''zsh-host2-20240215''] (2 - 1) = Inr ''zsh-host2-20240215''
   \<and> shd (sconst EOF) = EOF
   \<and> read_choice ''Choose backup to restore'' [''bash-host1-20240101'', ''zsh-host2-20240215'']
        (sconst EOF)
      = Some (Inr 1,
          [Print [], Print ''      [1] bash-host1-20240101'', Print ''      [2] zsh-host2-20240215'',
           Print [], Prompt ''  Choose backup to restore [1]: '', Print []],
          sconst EOF)
   \<and> answer 2 ((Line ''7'' ## Line ''two'' ## Line '' 2 '' ## sconst EOF) !! 2) = Some (Inr 2)
   \<and> answer 2 ((Line ''7'' ## Line ''two'' ## Line '' 2 '' ## sconst EOF) !! 0) = None
   \<and> answer 2 ((Line ''7'' ## Line ''two'' ## Line '' 2 '' ## sconst EOF) !! 1) = None"
  using read_choice_in_bounds
    [of "[''bash-host1-20240101'', ''zsh-host2-20240215'']" "''Choose backup to restore''"
        "Line ''7'' ## Line ''two'' ## Line '' 2 '' ## sconst EOF" 2 _ "sconst EOF" 2]
  by (simp add: ev_simps eval_nat_numeral All_less_Suc)

section \<open>Properties of the choice of the backup to restore\<close>

lemma read_choice_loop_extends:
  assumes "read_choice_loop prompt n out inp = Some res"
  shows "\<exists>extra. fst (snd res) = out @ extra"
proof (rule read_choice_loop.raw_induct[where P = "\<lambda>prompt n out inp res.
         \<exists>extra. fst (snd res) = out @ extra", OF _ assms], goal_cases)
  case (1 f prompt n out inp res)
  show ?case
  proof (cases "answer n (shd inp)")
    case None
    then have "f prompt n (out @ [Prompt (''  '' @ prompt @ '' [1]: '')]
             @ print_error (''Invalid choice. Please enter 1-'' @ str_of_nat n)) (stl inp) = Some res"
      using 1(2) by (auto simp: answer_def Let_def split: input_event.splits option.splits if_splits)
    then obtain extra where "fst (snd res) = (out @ [Prompt (''  '' @ prompt @ '' [1]: '')]
             @ print_error (''Invalid choice. Please enter 1-'' @ str_of_nat n)) @ extra"
      using 1(1) by blast
    then have "fst (snd res) = out @ ([Prompt (''  '' @ prompt @ '' [1]: '')]
             @ print_error (''Invalid choice. Please enter 1-'' @ str_of_nat n) @ extra)" by simp
    then show ?thesis by blast
  next
    case (Some a)
    then show ?thesis
      using 1(2) by (auto simp: answer_def Let_def split: input_event.splits option.splits if_splits)
  qed
qed

lemma read_choice_prints_options:
  assumes "read_choice prompt options inp = Some (r, evs, rest)"
  shows "set (option_lines options) \<subseteq> set evs"
  using read_choice_loop_extends[OF assms[unfolded read_choice_def]] by auto

lemma list_backups_sorted: "sorted (list_backups w bd)"
  by (simp add: list_backups_def)

lemma list_backups_mset:
  "is_dir w bd \<Longrightarrow> mset (list_backups w bd) = mset (map path_name (filter (is_dir w) (iterdir w bd)))"
  by (simp add: list_backups_def)

lemma choose_backup_chosen:
  assumes "choose_backup bd backups inp = Some (Inr (name, dir, offered), evs, rest)"
    and "backups \<noteq> []"
  shows "offered = backups \<and> dir = child bd name \<and> set (option_lines backups) \<subseteq> set evs
    \<and> (\<exists>i evs'. read_choice ''Choose backup to restore'' backups inp = Some (Inr i, evs', rest)
          \<and> 1 \<le> i \<and> i \<le> int (length backups) \<and> name = backups ! nat (i - 1))"
proof -
  from assms(1) obtain i evs' where
    rc: "read_choice ''Choose backup to restore'' backups inp = Some (Inr i, evs', rest)"
    and ix: "py_index backups (i - 1) = Inr name"
    and rest: "offered = backups" "dir = child bd name"
    and evs: "evs = print_status (''Found '' @ str_of_nat (length backups) @ '' backup(s)'') ''ok''
                @ evs' @ print_status (''Selected: '' @ name) ''info''"
    by (auto simp: choose_backup_def Let_def split: option.splits sum.splits prod.splits)
  have b0: "1 \<le> i \<and> i \<le> int (length backups)"
    using read_choice_range[OF assms(2) rc] .
  then have b: "1 \<le> i \<and> i \<le> int (length backups) \<and> py_index backups (i - 1) = Inr (backups ! nat (i - 1))"
    by (simp add: py_index_in_range)
  then have "name = backups ! nat (i - 1)" using ix by simp
  moreover have "set (option_lines backups) \<subseteq> set evs"
    using read_choice_prints_options[OF rc] evs by auto
  ultimately show ?thesis using rc rest b by blast
qed

lemma fetch_backups_chosen:
  assumes "fetch_backups w repo_url inp = Some (Inr x, evs, rest)"
  shows "list_backups w (temp_dir w @ [''git'', ''backups'']) \<noteq> []
    \<and> (\<exists>evs'. choose_backup (temp_dir w @ [''git'', ''backups''])
                 (list_backups w (temp_dir w @ [''git'', ''backups''])) inp = Some (Inr x, evs', rest)
               \<and> set evs' \<subseteq> set evs)"
  using assms
  by (auto simp: fetch_backups_def Let_def split: if_splits prod.splits option.splits)

lemma read_input_rest: "snd (snd (read_input prompt dflt inp)) = stl inp"
  by (simp add: read_input_def Let_def split: input_event.splits)

lemma do_restore_select_chosen:
  assumes "do_restore_select w inp = Some (Inr x, evs, rest)"
  shows "\<exists>repo_url evs'. fetch_backups w repo_url (stl inp) = Some (Inr x, evs', rest) \<and> set evs' \<subseteq> set evs"
proof -
  obtain repo_url evs2 inp2 where ri: "read_input ''Repository URL'' [] inp = (repo_url, evs2, inp2)"
    by (cases "read_input ''Repository URL'' [] inp") auto
  then have inp2: "inp2 = stl inp" using read_input_rest[of "''Repository URL''" "[]" inp] by simp
  have "\<exists>evs3 pre. fetch_backups w repo_url inp2 = Some (Inr x, evs3, rest) \<and> evs = pre @ evs3"
    using assms ri
    by (auto simp: do_restore_select_def Let_def split: if_splits prod.splits option.splits)
  then obtain evs3 pre where "fetch_backups w repo_url inp2 = Some (Inr x, evs3, rest)"
    and "evs = pre @ evs3" by blast
  then have "fetch_backups w repo_url (stl inp) = Some (Inr x, evs3, rest) \<and> set evs3 \<subseteq> set evs"
    using inp2 by simp
  then show ?thesis by blast
qed

lemma fetch_backups_none_found:
  assumes "list_backups w (temp_dir w @ [''git'', ''backups'']) = []"
  shows "\<exists>evs rest. fetch_backups w repo_url inp = Some (Inl (SystemExit 1), evs, rest)"
  using assms by (auto simp: fetch_backups_def Let_def split: if_splits prod.splits option.splits)

lemma do_restore_select_none_found:
  assumes "list_backups w (temp_dir w @ [''git'', ''backups'']) = []"
  shows "\<exists>evs rest. do_restore_select w inp = Some (Inl (SystemExit 1), evs, rest)"
proof -
  obtain repo_url evs2 inp2 where ri: "read_input ''Repository URL'' [] inp = (repo_url, evs2, inp2)"
    by (cases "read_input ''Repository URL'' [] inp") auto
  obtain evs3 rest3 where "fetch_backups w repo_url inp2 = Some (Inl (SystemExit 1), evs3, rest3)"
    using fetch_backups_none_found[OF assms] by blast
  then show ?thesis using ri
    by (auto simp: do_restore_select_def Let_def split: if_splits prod.splits option.splits)
qed


lemma answer_raises:
  "isdigit (strip s) \<Longrightarrow> py_int (strip s) = None \<Longrightarrow> answer n (Line s) = Some (Inl ValueError)"
  by (auto simp: answer_def Let_def isdigit_def)

lemma choose_backup_raises:
  assumes "isdigit (strip s)" and "py_int (strip s) = None"
  shows "map_option fst (choose_backup bd backups (Line s ## later)) = Some (Inl ValueError)"
proof -
  have "answer (length backups) (shd (Line s ## later)) = Some (Inl ValueError)"
    using answer_raises[OF assms] by simp
  then have "\<exists>evs. read_choice ''Choose backup to restore'' backups (Line s ## later)
      = Some (Inl ValueError, evs, later)"
    unfolding read_choice_def by (subst read_choice_loop_step) simp
  then show ?thesis by (auto simp: choose_backup_def Let_def)
qed

text \<open>
  C7. During restore, the backups offered are the names of the directories in the
  \<open>backups\<close> directory of the repository, each once, in lexicographic order; they are
  printed as the options, and the backup restored is the one at the index the user
  chose, counted from 1. When there is no backup directory the restore ends with
  \<open>SystemExit(1)\<close>. An input line that is not blank and on which \<open>str.isdigit()\<close> is
  false, or that \<open>int()\<close> reads as a number out of the range, selects nothing: the error
  with the valid range is printed and the prompt is shown again for the next input.
  Not every invalid input is answered so: on a line of digit characters that \<open>int()\<close>
  does not accept, such as the superscript two or a numeral of more than 4300 digits,
  \<open>str.isdigit()\<close> is true and \<open>int()\<close>, which \<open>read_choice\<close> calls outside of its \<open>try\<close>
  statement, raises \<open>ValueError\<close>. Neither the error with the valid range nor a new
  prompt follows: the exception leaves \<open>read_choice\<close> and the choice of the backup.
\<close>

theorem restore_offers_sorted_backups:
  assumes "bd = temp_dir w @ [''git'', ''backups'']" and "backups = list_backups w bd"
  shows "sorted backups
    \<and> (is_dir w bd \<longrightarrow> mset backups = mset (map path_name (filter (is_dir w) (iterdir w bd))))
    \<and> (do_restore_select w inp = Some (Inr (name, dir, offered), evs, rest) \<longrightarrow>
         offered = backups \<and> backups \<noteq> [] \<and> set (option_lines backups) \<subseteq> set evs
         \<and> dir = child bd name
         \<and> (\<exists>i evs'. read_choice ''Choose backup to restore'' backups (stl inp)
                         = Some (Inr i, evs', rest)
               \<and> 1 \<le> i \<and> i \<le> int (length backups) \<and> name = backups ! nat (i - 1)))
    \<and> (backups = [] \<longrightarrow>
         (\<exists>evs' rest'. do_restore_select w inp = Some (Inl (SystemExit 1), evs', rest')))
    \<and> (strip s \<noteq> []
         \<and> (\<not> isdigit (strip s)
              \<or> (\<exists>v. py_int (strip s) = Some v \<and> (v < 1 \<or> int (length backups) < v))) \<longrightarrow>
         read_choice_loop prompt (length backups) out (Line s ## later)
           = read_choice_loop prompt (length backups)
               (out @ [Prompt (''  '' @ prompt @ '' [1]: ''),
                       ErrorMsg (''Invalid choice. Please enter 1-'' @ str_of_nat (length backups)),
                       Log ''ERROR''
                         (''Invalid choice. Please enter 1-'' @ str_of_nat (length backups))])
               later)
    \<and> (isdigit (strip s) \<and> py_int (strip s) = None \<longrightarrow>
         read_choice_loop prompt (length backups) out (Line s ## later)
           = Some (Inl ValueError, out @ [Prompt (''  '' @ prompt @ '' [1]: '')], later)
         \<and> map_option fst (choose_backup bd backups (Line s ## later)) = Some (Inl ValueError))
    \<and> (4300 < length (strip s) \<or> (\<exists>c \<in> set (strip s). \<not> isdecimal_char c) \<longrightarrow>
         py_int (strip s) = None)"
proof (intro conjI impI)
  show "sorted backups" using assms(2) by (simp add: list_backups_sorted)
next
  assume "is_dir w bd"
  then show "mset backups = mset (map path_name (filter (is_dir w) (iterdir w bd)))"
    using assms(2) by (simp add: list_backups_mset)
next
  assume r: "do_restore_select w inp = Some (Inr (name, dir, offered), evs, rest)"
  obtain repo_url evs1 where
    f: "fetch_backups w repo_url (stl inp) = Some (Inr (name, dir, offered), evs1, rest)"
    and e1: "set evs1 \<subseteq> set evs"
    using do_restore_select_chosen[OF r] by blast
  from fetch_backups_chosen[OF f] obtain evs2 where
    ne: "backups \<noteq> []"
    and c: "choose_backup bd backups (stl inp) = Some (Inr (name, dir, offered), evs2, rest)"
    and e2: "set evs2 \<subseteq> set evs1"
    unfolding assms by auto
  note ch = choose_backup_chosen[OF c ne]
  show "offered = backups" "backups \<noteq> []" "dir = child bd name"
    "\<exists>i evs'. read_choice ''Choose backup to restore'' backups (stl inp) = Some (Inr i, evs', rest)
       \<and> 1 \<le> i \<and> i \<le> int (length backups) \<and> name = backups ! nat (i - 1)"
    using ch ne by blast+
  show "set (option_lines backups) \<subseteq> set evs" using ch e1 e2 by blast
next
  assume "backups = []"
  then show "\<exists>evs' rest'. do_restore_select w inp = Some (Inl (SystemExit 1), evs', rest')"
    using do_restore_select_none_found[of w inp] assms by simp
next
  assume "strip s \<noteq> []
         \<and> (\<not> isdigit (strip s)
              \<or> (\<exists>v. py_int (strip s) = Some v \<and> (v < 1 \<or> int (length backups) < v)))"
  then have "answer (length backups) (Line s) = None"
    using answer_rejects[of "length backups" s] by blast
  then show "read_choice_loop prompt (length backups) out (Line s ## later)
           = read_choice_loop prompt (length backups)
               (out @ [Prompt (''  '' @ prompt @ '' [1]: ''),
                       ErrorMsg (''Invalid choice. Please enter 1-'' @ str_of_nat (length backups)),
                       Log ''ERROR''
                         (''Invalid choice. Please enter 1-'' @ str_of_nat (length backups))])
               later"
    by (subst read_choice_loop_step) (simp add: print_error_def)
next
  assume a: "isdigit (strip s) \<and> py_int (strip s) = None"
  then have "answer (length backups) (Line s) = Some (Inl ValueError)"
    using answer_raises by blast
  then show "read_choice_loop prompt (length backups) out (Line s ## later)
           = Some (Inl ValueError, out @ [Prompt (''  '' @ prompt @ '' [1]: '')], later)"
    by (subst read_choice_loop_step) simp
  show "map_option fst (choose_backup bd backups (Line s ## later)) = Some (Inl ValueError)"
    using a choose_backup_raises by blast
next
  assume "4300 < length (strip s) \<or> (\<exists>c \<in> set (strip s). \<not> isdecimal_char c)"
  then show "py_int (strip s) = None"
    by (auto simp: py_int_def list_all_iff)
qed

lemmas world_simps = demo_world_def check_dependencies_def detect_os_def detect_package_manager_def
  command_exists_def print_status_def read_input_def fetch_backups_def choose_backup_def
  list_backups_def clone_repo_def run_command_def startswith_def path_name_def path_str_def
  child_def lower_def lower_char_def do_restore_select_def

theorem restore_offers_sorted_backups_witness:
  "sorted [''bash-host1-20240101'', ''zsh-host2-20240215'']
   \<and> ([''bash-host1-20240101'', ''zsh-host2-20240215'']
        = list_backups demo_world (temp_dir demo_world @ [''git'', ''backups''])
      \<and> is_dir demo_world (temp_dir demo_world @ [''git'', ''backups''])
      \<and> map_option (\<lambda>(r, evs, rest). (r, filter (\<lambda>ev. \<exists>m. ev = ErrorMsg m) evs, rest))
           (do_restore_select demo_world
              (Line ''https://example.com/alice/backups.git'' ## Line ''3'' ## Line ''abc''
                 ## Line ''2'' ## sconst EOF))
         = Some (Inr (''zsh-host2-20240215'',
                      [''tmp'', ''shellpack_4242'', ''git'', ''backups'', ''zsh-host2-20240215''],
                      [''bash-host1-20240101'', ''zsh-host2-20240215'']),
                 [ErrorMsg ''Invalid choice. Please enter 1-2'',
                  ErrorMsg ''Invalid choice. Please enter 1-2''],
                 sconst EOF)
      \<and> strip ''abc'' \<noteq> [] \<and> \<not> isdigit (strip ''abc'')
      \<and> py_int (strip ''3'') = Some 3
      \<and> list_backups (demo_world\<lparr>iterdir := (\<lambda>p. [])\<rparr>)
           (temp_dir (demo_world\<lparr>iterdir := (\<lambda>p. [])\<rparr>) @ [''git'', ''backups'']) = []
      \<and> map_option fst (do_restore_select (demo_world\<lparr>iterdir := (\<lambda>p. [])\<rparr>)
           (Line ''https://example.com/alice/backups.git'' ## sconst EOF))
         = Some (Inl (SystemExit 1))
      \<and> isdigit (strip [CHR 0xB2]) \<and> py_int (strip [CHR 0xB2]) = None
      \<and> \<not> isdecimal_char (CHR 0xB2)
      \<and> map_option (\<lambda>(r, evs, rest). (r, filter (\<lambda>ev. \<exists>m. ev = ErrorMsg m) evs, rest))
           (do_restore_select demo_world
              (Line ''https://example.com/alice/backups.git'' ## Line [CHR 0xB2]
                 ## Line ''2'' ## sconst EOF))
         = Some (Inl ValueError, [], Line ''2'' ## sconst EOF))"
proof -
  have ev: "[''bash-host1-20240101'', ''zsh-host2-20240215'']
        = list_backups demo_world (temp_dir demo_world @ [''git'', ''backups''])
      \<and> is_dir demo_world (temp_dir demo_world @ [''git'', ''backups''])
      \<and> map_option (\<lambda>(r, evs, rest). (r, filter (\<lambda>ev. \<exists>m. ev = ErrorMsg m) evs, rest))
           (do_restore_select demo_world
              (Line ''https://example.com/alice/backups.git'' ## Line ''3'' ## Line ''abc''
                 ## Line ''2'' ## sconst EOF))
         = Some (Inr (''zsh-host2-20240215'',
                      [''tmp'', ''shellpack_4242'', ''git'', ''backups'', ''zsh-host2-20240215''],
                      [''bash-host1-20240101'', ''zsh-host2-20240215'']),
                 [ErrorMsg ''Invalid choice. Please enter 1-2'',
                  ErrorMsg ''Invalid choice. Please enter 1-2''],
                 sconst EOF)
      \<and> strip ''abc'' \<noteq> [] \<and> \<not> isdigit (strip ''abc'')
      \<and> py_int (strip ''3'') = Some 3
      \<and> list_backups (demo_world\<lparr>iterdir := (\<lambda>p. [])\<rparr>)
           (temp_dir (demo_world\<lparr>iterdir := (\<lambda>p. [])\<rparr>) @ [''git'', ''backups'']) = []
      \<and> map_option fst (do_restore_select (demo_world\<lparr>iterdir := (\<lambda>p. [])\<rparr>)
           (Line ''https://example.com/alice/backups.git'' ## sconst EOF))
         = Some (Inl (SystemExit 1))
      \<and> isdigit (strip [CHR 0xB2]) \<and> py_int (strip [CHR 0xB2]) = None
      \<and> \<not> isdecimal_char (CHR 0xB2)
      \<and> map_option (\<lambda>(r, evs, rest). (r, filter (\<lambda>ev. \<exists>m. ev = ErrorMsg m) evs, rest))
           (do_restore_select demo_world
              (Line ''https://example.com/alice/backups.git'' ## Line [CHR 0xB2]
                 ## Line ''2'' ## sconst EOF))
         = Some (Inl ValueError, [], Line ''2'' ## sconst EOF)"
    by (simp add: world_simps ev_simps)
  then have listed: "[''bash-host1-20240101'', ''zsh-host2-20240215'']
        = list_backups demo_world (temp_dir demo_world @ [''git'', ''backups''])"
    by (rule conjunct1)
  have "sorted [''bash-host1-20240101'', ''zsh-host2-20240215'']"
    using restore_offers_sorted_backups[OF refl listed] by (rule conjunct1)
  then show ?thesis using ev by (rule conjI)
qed

section \<open>Properties of the Conda environment names\<close>

lemma strip_take: "\<exists>m. strip s = take m (dropWhile isspace s)"
proof -
  let ?t = "dropWhile isspace s"
  have "dropWhile isspace (rev ?t) = drop (length (takeWhile isspace (rev ?t))) (rev ?t)"
    by (rule dropWhile_eq_drop)
  then have "strip s = take (length ?t - length (takeWhile isspace (rev ?t))) ?t"
    by (simp add: strip_def rev_drop)
  then show ?thesis by blast
qed

lemma strip_hd: "strip s \<noteq> [] \<Longrightarrow> \<not> isspace (hd (strip s))"
proof -
  assume ne: "strip s \<noteq> []"
  obtain m where m: "strip s = take m (dropWhile isspace s)" using strip_take by blast
  then have t: "dropWhile isspace s \<noteq> []" and "0 < m" using ne by (auto intro: Nat.gr0I)
  then have "hd (strip s) = hd (dropWhile isspace s)" using m by (simp add: hd_take)
  then show ?thesis using hd_dropWhile[OF t] by simp
qed

lemma split_first:
  assumes "l \<noteq> []" and "\<not> isspace (hd l)"
  shows "\<exists>rest. split l = takeWhile (\<lambda>c. \<not> isspace c) l # rest"
proof -
  have "dropWhile isspace l = l" using assms by (cases l) auto
  then show ?thesis using assms(1) by (subst split.simps) (simp add: Let_def)
qed

lemma not_alnum_hyphen: "\<not> isalnum_char CHR ''-''" "\<not> isalnum_char CHR ''_''" "\<not> isalnum_char CHR ''*''"
  by (simp_all add: isalnum_char_def isalpha_char_def isnumeric_char_def isdigit_char_def
      isdecimal_char_def in_range_def)

lemma filter2_all: "list_all P (filter (\<lambda>c. c \<noteq> b) (filter (\<lambda>c. c \<noteq> a) xs))
     \<longleftrightarrow> list_all (\<lambda>c. P c \<or> c = a \<or> c = b) xs"
  by (induction xs) auto

lemma filter2_nonempty: "\<not> P a \<Longrightarrow> \<not> P b \<Longrightarrow> list_all (\<lambda>c. P c \<or> c = a \<or> c = b) xs \<Longrightarrow>
    filter (\<lambda>c. c \<noteq> b) (filter (\<lambda>c. c \<noteq> a) xs) \<noteq> [] \<longleftrightarrow> list_ex P xs"
  by (induction xs) auto

lemma isalnum_without_separators:
  "(name \<noteq> ''*'' \<and> isalnum (filter (\<lambda>c. c \<noteq> CHR ''_'') (filter (\<lambda>c. c \<noteq> CHR ''-'') name)))
     \<longleftrightarrow> kept_env_name name"
  unfolding kept_env_name_def isalnum_def
  using filter2_all[of isalnum_char "CHR ''_''" "CHR ''-''" name]
    filter2_nonempty[of isalnum_char "CHR ''-''" "CHR ''_''" name] not_alnum_hyphen(1,2) by blast

lemma conda_env_line_step:
  "conda_env_line line (Inr envs) = Inr (envs @ env_lines [line])"
proof (cases "strip line = [] \<or> startswith (strip line) ''#''")
  case True
  then show ?thesis by (auto simp: conda_env_line_def env_lines_def Let_def)
next
  case False
  then have ne: "strip line \<noteq> []" by simp
  obtain rest where sp: "split (strip line) = takeWhile (\<lambda>c. \<not> isspace c) (strip line) # rest"
    using split_first[OF ne strip_hd[OF ne]] by blast
  show ?thesis
    using False sp isalnum_without_separators[of "takeWhile (\<lambda>c. \<not> isspace c) (strip line)"]
    by (simp add: conda_env_line_def env_lines_def Let_def)
qed

lemma fold_conda_env_line:
  "fold conda_env_line ls (Inr envs) = Inr (envs @ env_lines ls)"
proof (induction ls arbitrary: envs)
  case Nil
  show ?case by (simp add: env_lines_def)
next
  case (Cons l ls)
  have "env_lines (l # ls) = env_lines [l] @ env_lines ls" by (simp add: env_lines_def)
  then show ?case by (simp add: conda_env_line_step Cons.IH)
qed

lemma kept_ascii_in_class:
  assumes "kept_env_name name" and "list_all (\<lambda>c. c < CHR 0x80) name"
  shows "matches_env_class name"
proof -
  have "in_range CHR ''a'' CHR ''z'' c \<or> in_range CHR ''A'' CHR ''Z'' c \<or> in_range CHR ''0'' CHR ''9'' c"
    if "isalnum_char c" "c < CHR 0x80" for c
    using that
    by (simp add: isalnum_char_def isalpha_char_def isnumeric_char_def isdigit_char_def
        isdecimal_char_def in_range_def less_eq_char_def less_char_def) (auto; linarith)
  moreover have "name \<noteq> []" using assms(1) by (auto simp: kept_env_name_def)
  ultimately show ?thesis
    using assms by (auto simp: kept_env_name_def matches_env_class_def list_all_iff)
qed

lemma class_kept:
  assumes "matches_env_class name" and "list_ex isalnum_char name"
  shows "kept_env_name name"
proof -
  have "isalnum_char c \<or> c = CHR ''-'' \<or> c = CHR ''_''"
    if "in_range CHR ''a'' CHR ''z'' c \<or> in_range CHR ''A'' CHR ''Z'' c
          \<or> in_range CHR ''0'' CHR ''9'' c \<or> c = CHR ''_'' \<or> c = CHR ''-''" for c
    using that
    by (auto simp: isalnum_char_def isalpha_char_def isnumeric_char_def isdigit_char_def
        isdecimal_char_def)
  moreover have "name \<noteq> ''*''"
    using assms(1) by (auto simp: matches_env_class_def in_range_def)
  ultimately show ?thesis
    using assms by (auto simp: kept_env_name_def matches_env_class_def list_all_iff)
qed

text \<open>
  C8. The environment names \<open>backup_conda\<close> takes from the output of \<open>conda env list\<close>
  are the first words of the lines that are not blank and not comments, where the word
  is not the marker \<open>*\<close> and is made of alphanumeric characters, hyphens and
  underscores with at least one alphanumeric character (\<open>kept_env_name\<close>). A name of
  ASCII characters is kept exactly when it matches \<open>[A-Za-z0-9_-]+\<close> and has an
  alphanumeric character; so every kept name of ASCII characters is in the class.
\<close>

theorem conda_envs_kept:
  "conda_envs out = Inr (env_lines (splitlines out))
   \<and> list_all kept_env_name (env_lines (splitlines out))
   \<and> list_all (\<lambda>name. list_all (\<lambda>c. c < CHR 0x80) name \<longrightarrow> matches_env_class name)
        (env_lines (splitlines out))
   \<and> (list_all (\<lambda>c. c < CHR 0x80) name \<longrightarrow>
        (kept_env_name name \<longleftrightarrow> matches_env_class name \<and> list_ex isalnum_char name))"
proof (intro conjI impI)
  show "conda_envs out = Inr (env_lines (splitlines out))"
    using fold_conda_env_line[of "splitlines out" "[]"] by (simp add: conda_envs_def)
  show k: "list_all kept_env_name (env_lines (splitlines out))"
    by (simp add: env_lines_def list_all_iff)
  show "list_all (\<lambda>name. list_all (\<lambda>c. c < CHR 0x80) name \<longrightarrow> matches_env_class name)
        (env_lines (splitlines out))"
    unfolding list_all_iff
  proof (intro ballI impI)
    fix x assume "x \<in> set (env_lines (splitlines out))" and a: "\<forall>c\<in>set x. c < CHR 0x80"
    then have "kept_env_name x" using k unfolding list_all_iff by blast
    then show "matches_env_class x" using a kept_ascii_in_class[of x] unfolding list_all_iff by blast
  qed
next
  assume a: "list_all (\<lambda>c. c < CHR 0x80) name"
  show "kept_env_name name \<longleftrightarrow> matches_env_class name \<and> list_ex isalnum_char name"
  proof
    assume k: "kept_env_name name"
    then have "list_ex isalnum_char name" unfolding kept_env_name_def by (elim conjE)
    then show "matches_env_class name \<and> list_ex isalnum_char name"
      using kept_ascii_in_class[OF k a] by (intro conjI)
  next
    assume "matches_env_class name \<and> list_ex isalnum_char name"
    then show "kept_env_name name" using class_kept[of name] by (elim conjE)
  qed
qed

lemmas str_simps = strip_def isspace_def in_range_def isalnum_def isalnum_char_def isalpha_char_def
  isnumeric_char_def isdigit_char_def isdecimal_char_def startswith_def splitlines_def linebreak_def
  Let_def

theorem conda_envs_kept_witness:
  "conda_envs (''# conda environments:'' @ [CHR 0x0A]
          @ ''base                  *  /home/alice/miniconda3'' @ [CHR 0x0A]
          @ ''py-3_11                  /home/alice/miniconda3/envs/py-3_11'' @ [CHR 0x0A]
          @ ''                      *  /srv/envs/unnamed'' @ [CHR 0x0A])
     = Inr [''base'', ''py-3_11'']
   \<and> list_all (\<lambda>c. c < CHR 0x80) ''py-3_11''
   \<and> kept_env_name ''py-3_11'' \<and> matches_env_class ''py-3_11''
   \<and> list_ex isalnum_char ''py-3_11''"
  using conda_envs_kept[of "''# conda environments:'' @ [CHR 0x0A]
          @ ''base                  *  /home/alice/miniconda3'' @ [CHR 0x0A]
          @ ''py-3_11                  /home/alice/miniconda3/envs/py-3_11'' @ [CHR 0x0A]
          @ ''                      *  /srv/envs/unnamed'' @ [CHR 0x0A]" "''py-3_11''"]
  by (simp add: env_lines_def kept_env_name_def matches_env_class_def str_simps
      less_char_def)

text \<open>The name \<open>_\<close> is in the class \<open>[A-Za-z0-9_-]+\<close> and is not kept; a name with the
  letter e acute is kept and is not in the class.\<close>

theorem conda_envs_outside_class:
  "conda_envs (''# conda environments:'' @ [CHR 0x0A] @ ''#'' @ [CHR 0x0A]
          @ ''base                  *  /home/alice/miniconda3'' @ [CHR 0x0A]
          @ ''py-3_11                  /home/alice/miniconda3/envs/py-3_11'' @ [CHR 0x0A]
          @ ''                      *  /srv/envs/unnamed'' @ [CHR 0x0A]
          @ ''_                        /home/alice/miniconda3/envs/_'' @ [CHR 0x0A]
          @ ''caf'' @ [CHR 0xE9] @ ''                     /home/alice/miniconda3/envs/caf'' @ [CHR 0x0A])
     = Inr [''base'', ''py-3_11'', ''caf'' @ [CHR 0xE9]]
   \<and> matches_env_class ''_'' \<and> \<not> matches_env_class (''caf'' @ [CHR 0xE9])"
  by (simp add: conda_envs_def conda_env_line_def split.simps matches_env_class_def str_simps)

section \<open>Properties of the package lists\<close>

lemma statuses_append: "statuses (xs @ ys) = statuses xs @ statuses ys"
  by (induction xs rule: statuses.induct) simp_all

lemma statuses_print_status: "statuses (print_status m s) = [s]"
  by (simp add: print_status_def)

lemma writes_text_append:
  "writes_text p (xs @ ys) \<longleftrightarrow> writes_text p xs \<or> writes_text p ys"
  by (induction p xs rule: writes_text.induct) simp_all

lemma writes_text_print_status: "\<not> writes_text p (print_status m s)"
  by (simp add: print_status_def)

lemma statuses_run_command: "statuses (snd (run_command w cmd check t)) = []"
  by (simp add: run_command_def split: proc.splits)

lemma writes_text_run_command: "\<not> writes_text p (snd (run_command w cmd check t))"
  by (simp add: run_command_def split: proc.splits)

lemma run_command_exits_zero: "fst (fst (run_command w cmd check 0)) = 0 \<longleftrightarrow> exits_zero w cmd"
  by (simp add: run_command_def exits_zero_def split: proc.splits)

lemma statuses_export_list: "statuses (export_list w cmd p text_of) = []"
  using statuses_run_command[of w cmd False 0]
  by (auto simp: export_list_def statuses_append split: prod.splits)

lemma writes_text_export_list:
  "writes_text q (export_list w cmd p text_of) \<longleftrightarrow> q = p \<and> exits_zero w cmd"
  using writes_text_run_command[of q w cmd False 0] run_command_exits_zero[of w cmd False]
  by (auto simp: export_list_def writes_text_append split: prod.splits)

text \<open>
  C5. When \<open>backup_packages\<close> runs for \<open>apt\<close> or \<open>pacman\<close> and it is not a dry run, each
  of the output files is written exactly when its sub-command exits with status zero;
  a sub-command that exits with another status, times out or cannot be started leaves
  its file unwritten. The status line of the category is \<open>ok\<close> in every case, also when
  no file was written.
\<close>

theorem backup_packages_files:
  assumes "\<not> dry_run w"
  shows "(writes_text (dest_dir @ [''packages'', ''apt_packages.txt''])
            (backup_packages w dest_dir ''apt'')
          \<longleftrightarrow> exits_zero w [''apt'', ''list'', ''--installed''])
    \<and> (writes_text (dest_dir @ [''packages'', ''apt_manual.txt''])
            (backup_packages w dest_dir ''apt'')
          \<longleftrightarrow> exits_zero w [''apt-mark'', ''showmanual''])
    \<and> statuses (backup_packages w dest_dir ''apt'') = [''ok'']
    \<and> (writes_text (dest_dir @ [''packages'', ''pacman_packages.txt''])
            (backup_packages w dest_dir ''pacman'')
          \<longleftrightarrow> exits_zero w [''pacman'', ''-Qe''])
    \<and> (writes_text (dest_dir @ [''packages'', ''pacman_aur.txt''])
            (backup_packages w dest_dir ''pacman'')
          \<longleftrightarrow> exits_zero w [''pacman'', ''-Qm''])
    \<and> statuses (backup_packages w dest_dir ''pacman'') = [''ok'']"
  using assms
  by (simp add: backup_packages_def Let_def writes_text_append writes_text_export_list
      writes_text_print_status statuses_append statuses_export_list statuses_print_status)

theorem backup_packages_files_witness:
  "\<not> dry_run demo_world
   \<and> writes_text [''tmp'', ''shellpack_4242'', ''backup'', ''bash-host1-20240215'', ''packages'',
                   ''apt_manual.txt'']
        (backup_packages demo_world [''tmp'', ''shellpack_4242'', ''backup'', ''bash-host1-20240215'']
           ''apt'')
   \<and> exits_zero demo_world [''apt-mark'', ''showmanual'']
   \<and> statuses (backup_packages demo_world
                  [''tmp'', ''shellpack_4242'', ''backup'', ''bash-host1-20240215''] ''apt'') = [''ok'']"
  using backup_packages_files
    [of demo_world "[''tmp'', ''shellpack_4242'', ''backup'', ''bash-host1-20240215'']"]
  by (simp add: demo_world_def exits_zero_def)

text \<open>When both sub-commands of \<open>apt\<close> exit with status 100, no file is written and the
  category is reported \<open>ok\<close>.\<close>

theorem backup_packages_ok_without_files:
  "backup_packages (demo_world\<lparr>subprocess_run := (\<lambda>cmd timeout. Exited 100 [] ''E: failed'')\<rparr>)
     [''tmp'', ''shellpack_4242'', ''backup'', ''bash-host1-20240215''] ''apt''
   = [Mkdir [''tmp'', ''shellpack_4242'', ''backup'', ''bash-host1-20240215'', ''packages''],
      Run [''apt'', ''list'', ''--installed''],
      Run [''apt-mark'', ''showmanual''],
      Status ''APT packages'' ''ok'',
      Log ''INFO'' ''APT packages'']"
  by (simp add: backup_packages_def export_list_def run_command_def print_status_def demo_world_def)

section \<open>Properties of the dry run\<close>

lemma dry_event_print_status: "list_all dry_event (print_status m s)"
  by (simp add: print_status_def)

lemma fold_copy_if_found_dry:
  assumes "dry_run w"
  shows "fold (copy_if_found w sd) files (n, evs)
     = (n + length (filter (\<lambda>f. is_file w (home w @ [f])) files), evs)"
  using assms
  by (induction files arbitrary: n) (simp_all add: copy_if_found_def Let_def)

lemma found_positive:
  "0 < length (filter (\<lambda>f. is_file w (home w @ [f])) files) \<longleftrightarrow> dotfiles_found w files"
  by (simp add: dotfiles_found_def list_ex_iff filter_empty_conv)

lemma backup_bash_dry:
  assumes "dry_run w"
  shows "list_all dry_event (backup_bash w d)"
    and "statuses (backup_bash w d)
      = [if dotfiles_found w [''.bashrc'', ''.bash_aliases'', ''.bash_profile'', ''.profile'',
             ''.bash_logout''] then ''ok'' else ''skip'']"
  unfolding backup_bash_def Let_def fold_copy_if_found_dry[OF assms] prod.case
  using found_positive[of w "[''.bashrc'', ''.bash_aliases'', ''.bash_profile'', ''.profile'',
             ''.bash_logout'']"]
  by (simp_all add: print_status_def del: filter.simps)

lemma backup_zsh_dry:
  assumes "dry_run w"
  shows "list_all dry_event (backup_zsh w d)"
    and "statuses (backup_zsh w d)
      = [if is_dir w (home w @ [''.oh-my-zsh''])
            \<or> dotfiles_found w [''.zshrc'', ''.zprofile'', ''.zshenv'', ''.zlogin'', ''.zlogout'']
         then ''ok'' else ''skip'']"
  unfolding backup_zsh_def Let_def fold_copy_if_found_dry[OF assms] prod.case
  using found_positive[of w "[''.zshrc'', ''.zprofile'', ''.zshenv'', ''.zlogin'', ''.zlogout'']"] assms
  by (simp_all add: print_status_def del: filter.simps)

lemma backup_fish_dry:
  assumes "dry_run w"
  shows "list_all dry_event (backup_fish w d)"
    and "statuses (backup_fish w d)
      = [if is_dir w (home w @ [''.config'', ''fish'']) then ''info'' else ''skip'']"
  using assms by (simp_all add: backup_fish_def Let_def print_status_def)

lemma backup_packages_dry:
  assumes "dry_run w"
  shows "list_all dry_event (backup_packages w d pm)"
    and "statuses (backup_packages w d pm) = [''info'']"
  using assms by (simp_all add: backup_packages_def Let_def print_status_def)

lemma backup_starship_dry:
  assumes "dry_run w"
  shows "list_all dry_event (backup_starship w d)"
    and "statuses (backup_starship w d)
      = [if is_file w (home w @ [''.config'', ''starship.toml'']) then ''ok'' else ''skip'']"
  using assms by (simp_all add: backup_starship_def Let_def print_status_def)

lemma backup_git_config_dry:
  assumes "dry_run w"
  shows "list_all dry_event (backup_git_config w d)"
    and "statuses (backup_git_config w d)
      = [if is_file w (home w @ [''.gitconfig'']) then ''ok'' else ''skip'']"
  using assms by (simp_all add: backup_git_config_def Let_def print_status_def)

lemma backup_ssh_dry:
  assumes "dry_run w"
  shows "list_all dry_event (snd (backup_ssh w d))"
    and "statuses (snd (backup_ssh w d))
      = [if is_dir w (home w @ [''.ssh'']) then ''info'' else ''skip'']"
  using assms by (simp_all add: backup_ssh_def Let_def print_status_def)

lemma backup_conda_dry:
  assumes "dry_run w"
  shows "list_all dry_event (snd (backup_conda w d))"
    and "statuses (snd (backup_conda w d))
      = [if list_ex (\<lambda>p. is_file w (p @ [''bin'', ''conda'']))
                 [home w @ [''miniconda3''], home w @ [''anaconda3''],
                  home w @ [''miniforge3''],
                  [''opt'', ''homebrew'', ''Caskroom'', ''miniconda'', ''base''],
                  [''usr'', ''local'', ''miniconda3'']]
         then ''info'' else ''skip'']"
    and "fst (backup_conda w d) = Inr True"
  using assms
  by (simp_all add: backup_conda_def Let_def print_status_def find_None_iff list_ex_iff
      split: option.splits)

lemma backup_history_dry:
  assumes "dry_run w"
  shows "list_all dry_event (backup_history w d)"
    and "statuses (backup_history w d) = [''info'']"
  using assms by (simp_all add: backup_history_def Let_def print_status_def)

lemma backup_cloud_creds_dry:
  assumes "dry_run w"
  shows "list_all dry_event (backup_cloud_creds w d)"
    and "statuses (backup_cloud_creds w d) = [''ok'']"
  using assms by (simp_all add: backup_cloud_creds_def Let_def print_status_def)

text \<open>
  C2. In a dry run, the routine of every category creates directories, prints status
  lines and appends to the log, and does nothing else: it copies no file, creates no
  archive, writes no text file and runs no command. The status it reports is \<open>info\<close>
  for the packages and the history, and for Fish, the SSH keys and Conda when their
  source is found (\<open>skip\<close> when it is not); it is \<open>ok\<close> for Bash, Zsh, Starship and the
  Git configuration when their files are found (\<open>skip\<close> when they are not), and always
  \<open>ok\<close> for the cloud credentials.
\<close>

theorem dry_run_writes_nothing:
  assumes "dry_run w"
  shows "list_all dry_event (backup_fish w d) \<and> list_all dry_event (backup_bash w d)
    \<and> list_all dry_event (backup_zsh w d) \<and> list_all dry_event (backup_packages w d pm)
    \<and> list_all dry_event (backup_starship w d) \<and> list_all dry_event (backup_git_config w d)
    \<and> list_all dry_event (snd (backup_ssh w d)) \<and> list_all dry_event (snd (backup_conda w d))
    \<and> list_all dry_event (backup_history w d) \<and> list_all dry_event (backup_cloud_creds w d)
    \<and> statuses (backup_fish w d)
          = [if is_dir w (home w @ [''.config'', ''fish'']) then ''info'' else ''skip'']
    \<and> statuses (backup_bash w d)
          = [if dotfiles_found w [''.bashrc'', ''.bash_aliases'', ''.bash_profile'', ''.profile'',
                 ''.bash_logout''] then ''ok'' else ''skip'']
    \<and> statuses (backup_zsh w d)
          = [if is_dir w (home w @ [''.oh-my-zsh''])
                \<or> dotfiles_found w [''.zshrc'', ''.zprofile'', ''.zshenv'', ''.zlogin'', ''.zlogout'']
             then ''ok'' else ''skip'']
    \<and> statuses (backup_packages w d pm) = [''info'']
    \<and> statuses (backup_starship w d)
          = [if is_file w (home w @ [''.config'', ''starship.toml'']) then ''ok'' else ''skip'']
    \<and> statuses (backup_git_config w d)
          = [if is_file w (home w @ [''.gitconfig'']) then ''ok'' else ''skip'']
    \<and> statuses (snd (backup_ssh w d))
          = [if is_dir w (home w @ [''.ssh'']) then ''info'' else ''skip'']
    \<and> statuses (snd (backup_conda w d))
          = [if list_ex (\<lambda>p. is_file w (p @ [''bin'', ''conda'']))
                 [home w @ [''miniconda3''], home w @ [''anaconda3''],
                  home w @ [''miniforge3''],
                  [''opt'', ''homebrew'', ''Caskroom'', ''miniconda'', ''base''],
                  [''usr'', ''local'', ''miniconda3'']]
             then ''info'' else ''skip'']
    \<and> statuses (backup_history w d) = [''info'']
    \<and> statuses (backup_cloud_creds w d) = [''ok'']"
  by (intro conjI backup_fish_dry[OF assms] backup_bash_dry[OF assms] backup_zsh_dry[OF assms]
      backup_packages_dry[OF assms] backup_starship_dry[OF assms] backup_git_config_dry[OF assms]
      backup_ssh_dry[OF assms] backup_conda_dry(1,2)[OF assms] backup_history_dry[OF assms]
      backup_cloud_creds_dry[OF assms])

theorem dry_run_writes_nothing_witness:
  "dry_run (demo_world\<lparr>dry_run := True\<rparr>)
   \<and> list_all dry_event
        (backup_packages (demo_world\<lparr>dry_run := True\<rparr>)
           [''tmp'', ''shellpack_4242'', ''backup'', ''bash-host1-20240215''] ''apt'')
   \<and> backup_packages (demo_world\<lparr>dry_run := True\<rparr>)
        [''tmp'', ''shellpack_4242'', ''backup'', ''bash-host1-20240215''] ''apt''
      = [Mkdir [''tmp'', ''shellpack_4242'', ''backup'', ''bash-host1-20240215'', ''packages''],
         Status ''[DRY RUN] Would backup package list (apt)'' ''info'',
         Log ''INFO'' ''[DRY RUN] Would backup package list (apt)'']
   \<and> statuses (backup_packages (demo_world\<lparr>dry_run := True\<rparr>)
                  [''tmp'', ''shellpack_4242'', ''backup'', ''bash-host1-20240215''] ''apt'')
      = [''info'']"
  using dry_run_writes_nothing
    [of "demo_world\<lparr>dry_run := True\<rparr>"
        "[''tmp'', ''shellpack_4242'', ''backup'', ''bash-host1-20240215'']" "''apt''"]
  by (simp add: demo_world_def backup_packages_def print_status_def)

text \<open>In a dry run on the example machine, where \<open>.bashrc\<close> exists and no directory of a
  cloud provider does, the Bash configuration and the cloud credentials are reported
  \<open>ok\<close>.\<close>

theorem dry_run_reports_ok:
  "backup_cloud_creds (demo_world\<lparr>dry_run := True\<rparr>)
     [''tmp'', ''shellpack_4242'', ''backup'', ''bash-host1-20240215'']
   = [Mkdir [''tmp'', ''shellpack_4242'', ''backup'', ''bash-host1-20240215'', ''config'', ''cloud''],
      Status ''Cloud credentials (0)'' ''ok'',
      Log ''INFO'' ''Cloud credentials (0)'']
   \<and> backup_bash (demo_world\<lparr>dry_run := True\<rparr>)
       [''tmp'', ''shellpack_4242'', ''backup'', ''bash-host1-20240215'']
     = [Mkdir [''tmp'', ''shellpack_4242'', ''backup'', ''bash-host1-20240215'', ''shells'', ''bash''],
        Status ''Bash config (1 files)'' ''ok'',
        Log ''INFO'' ''Bash config (1 files)'']"
  by (simp add: backup_cloud_creds_def backup_bash_def copy_if_found_def demo_world_def
      print_status_def str_of_nat.simps digit_char_def Let_def)

section \<open>Properties of the fallback after a failed clone\<close>

lemma commands_append: "commands (xs @ ys) = commands xs @ commands ys"
  by (induction xs rule: commands.induct) simp_all

lemma commands_run_command: "commands (snd (run_command w cmd check t)) = [cmd]"
  by (simp add: run_command_def split: proc.splits)

lemma init_repo_commands:
  "commands (snd (init_repo w dest_dir repo_url))
     = [''git'', ''init'']
       # (if exits_zero w [''git'', ''init'']
          then [[''git'', ''-C'', path_str dest_dir, ''remote'', ''add'', ''origin'', repo_url]]
          else [])"
proof -
  obtain rc out err evs where r: "run_command w [''git'', ''init''] False 0 = ((rc, out, err), evs)"
    by (metis prod.exhaust)
  have c: "commands evs = [[''git'', ''init'']]"
    using commands_run_command[of w "[''git'', ''init'']" False 0] r by simp
  have z: "rc = 0 \<longleftrightarrow> exits_zero w [''git'', ''init'']"
    using run_command_exits_zero[of w "[''git'', ''init'']" False] r by simp
  show ?thesis
    using c z by (simp add: init_repo_def r commands_append commands_run_command)
qed

lemma init_repo_result: "fst (init_repo w dest_dir repo_url) = exits_zero w [''git'', ''init'']"
proof -
  obtain rc out err evs where r: "run_command w [''git'', ''init''] False 0 = ((rc, out, err), evs)"
    by (metis prod.exhaust)
  have z: "rc = 0 \<longleftrightarrow> exits_zero w [''git'', ''init'']"
    using run_command_exits_zero[of w "[''git'', ''init'']" False] r by simp
  show ?thesis using z by (simp add: init_repo_def r)
qed

lemma do_backup_push_falls_back:
  assumes "\<not> startswith (sel_repo_url sel) ''git@''"
    and "\<not> fst (clone_repo w (sel_repo_url sel) (temp_dir w @ [''git'']))"
  shows "\<exists>rest. snd (do_backup_push w sel backup_dir)
           = [Print ''  Cloning repository...'']
             @ snd (clone_repo w (sel_repo_url sel) (temp_dir w @ [''git'']))
             @ [Print ''  Clone failed, initializing new repository...'']
             @ snd (init_repo w (temp_dir w @ [''git'']) (sel_repo_url sel)) @ rest"
  using assms
  by (auto simp: do_backup_push_def Let_def split: prod.splits option.splits)

lemma do_backup_push_init_fails:
  assumes "\<not> startswith (sel_repo_url sel) ''git@''"
    and "\<not> fst (clone_repo w (sel_repo_url sel) (temp_dir w @ [''git'']))"
    and "\<not> exits_zero w [''git'', ''init'']"
  shows "fst (do_backup_push w sel backup_dir) = Inl (SystemExit 1)"
  using assms init_repo_result[of w "temp_dir w @ [''git'']" "sel_repo_url sel"]
  by (auto simp: do_backup_push_def Let_def split: prod.splits option.splits)

text \<open>
  C4. When the clone fails during a backup, \<open>do_backup\<close> goes on with \<open>init_repo\<close> on the
  directory \<open>git\<close> of the temporary directory and the URL. \<open>init_repo\<close> creates the
  directory and runs \<open>git init\<close> with no directory argument, so that Git initialises
  the working directory of the process and not the destination; only the command that
  adds the remote \<open>origin\<close> names the destination, and its exit status is ignored:
  \<open>init_repo\<close> succeeds exactly when \<open>git init\<close> exits with status zero. When \<open>git init\<close>
  fails, the backup ends with \<open>SystemExit(1)\<close>.
\<close>

theorem init_repo_runs_git_init_without_destination:
  assumes "\<not> startswith (sel_repo_url sel) ''git@''"
    and "\<not> fst (clone_repo w (sel_repo_url sel) (temp_dir w @ [''git'']))"
  shows "(\<exists>rest. snd (do_backup_push w sel backup_dir)
            = [Print ''  Cloning repository...'']
              @ snd (clone_repo w (sel_repo_url sel) (temp_dir w @ [''git'']))
              @ [Print ''  Clone failed, initializing new repository...'']
              @ snd (init_repo w (temp_dir w @ [''git'']) (sel_repo_url sel)) @ rest)
    \<and> commands (snd (init_repo w dest_dir repo_url))
        = [''git'', ''init'']
          # (if exits_zero w [''git'', ''init'']
             then [[''git'', ''-C'', path_str dest_dir, ''remote'', ''add'', ''origin'', repo_url]]
             else [])
    \<and> fst (init_repo w dest_dir repo_url) = exits_zero w [''git'', ''init'']
    \<and> (\<not> exits_zero w [''git'', ''init''] \<longrightarrow>
          fst (do_backup_push w sel backup_dir) = Inl (SystemExit 1))"
  using do_backup_push_falls_back[OF assms] do_backup_push_init_fails[OF assms]
    init_repo_commands init_repo_result
  by (intro conjI impI)

theorem init_repo_runs_git_init_without_destination_witness:
  "\<not> startswith (sel_repo_url demo_selections) ''git@''
   \<and> \<not> fst (clone_repo no_remote_world (sel_repo_url demo_selections)
              (temp_dir no_remote_world @ [''git'']))
   \<and> exits_zero no_remote_world [''git'', ''init'']
   \<and> init_repo no_remote_world [''tmp'', ''shellpack_4242'', ''git'']
        ''https://example.com/alice/backups.git''
      = (True,
         [Mkdir [''tmp'', ''shellpack_4242'', ''git''],
          Run [''git'', ''init''],
          Run [''git'', ''-C'', ''/tmp/shellpack_4242/git'', ''remote'', ''add'', ''origin'',
               ''https://example.com/alice/backups.git'']])
   \<and> fst (do_backup_push no_remote_world demo_selections
             [''tmp'', ''shellpack_4242'', ''backup'', ''bash-host1-20240215''])
      = Inl (SystemExit 1)
   \<and> filter (\<lambda>ev. \<exists>m. ev = ErrorMsg m)
        (snd (do_backup_push no_remote_world demo_selections
                [''tmp'', ''shellpack_4242'', ''backup'', ''bash-host1-20240215'']))
      = [ErrorMsg ''git add failed: fatal: not a git repository'',
         ErrorMsg ''Failed to push to repository'']"
  using init_repo_runs_git_init_without_destination
    [of demo_selections no_remote_world
        "[''tmp'', ''shellpack_4242'', ''backup'', ''bash-host1-20240215'']"
        "[''tmp'', ''shellpack_4242'', ''git'']" "''https://example.com/alice/backups.git''"]
  by (simp add: no_remote_world_def demo_selections_def demo_world_def do_backup_push_def
      clone_repo_def init_repo_def push_to_repo_def run_command_def exits_zero_def
      startswith_def path_str_def child_def print_error_def print_status_def Let_def)

end
